theory Spec2Isabelle
  imports Main "HOL-Library.Word" "HOL-Library.AList"
begin

section \<open>Basic Security System: a shallow embedding of \<open>SecuritySystem\<close>\<close>

text \<open>
  The class \<open>SecuritySystem\<close> of \<open>security_system.py\<close> (and its older sibling
  \<open>BSS/bss.py\<close>) is embedded method by method. Everything a method touches is a field
  of one state record: the three dictionaries of the object, the two files on disk, the
  terminal (pending input lines, lines printed so far) and the wall clock.

  Conventions of the model.
  \<^item> A Python \<open>str\<close> is a \<open>string\<close> of ASCII characters, so \<open>str.encode()\<close> is the
    identity and \<open>upper\<close>, \<open>lower\<close> and \<open>strip\<close> are the ASCII ones.
  \<^item> A \<open>dict\<close> is an association list in insertion order; \<open>k in d\<close> is
    \<open>map_of d k \<noteq> None\<close>, \<open>d[k] = v\<close> is \<open>AList.update k v d\<close>, \<open>len(d) == 0\<close> is
    \<open>d = []\<close>.
  \<^item> A naive \<open>datetime\<close> is an \<open>int\<close>, the microseconds since \<open>datetime.min\<close> on
    the local time line; \<open>timedelta(seconds=n)\<close> is \<open>n * 1000000\<close>, and adding one to a
    \<open>datetime\<close> raises \<open>OverflowError\<close> outside \<open>datetime.min .. datetime.max\<close>.
  \<^item> The standard library is a parameter \<open>lib\<close>: the two digests of \<open>hashlib\<close>,
    \<open>strftime\<close>, \<open>json.dump\<close> for the two documents and \<open>json.load\<close>, which returns
    a JSON value or raises.
  \<^item> A raised exception is \<open>Inl\<close> of the result; nothing in the class catches one
    except \<open>json.JSONDecodeError\<close> in the loaders. \<open>time.sleep\<close> and
    \<open>os.system\<close> change nothing the model holds, and writing a file always succeeds.
\<close>

subsection \<open>Strings\<close>

definition isspace :: "char \<Rightarrow> bool" where
  "isspace c = (c \<in> set [CHR '' '', CHR 0x09, CHR 0x0A, CHR 0x0B, CHR 0x0C, CHR 0x0D,
                          CHR 0x1C, CHR 0x1D, CHR 0x1E, CHR 0x1F])"

definition strip :: "string \<Rightarrow> string" where
  "strip s = rev (dropWhile isspace (rev (dropWhile isspace s)))"

definition upper_char :: "char \<Rightarrow> char" where
  "upper_char c =
     (case map_of (zip ''abcdefghijklmnopqrstuvwxyz'' ''ABCDEFGHIJKLMNOPQRSTUVWXYZ'') c of
        None \<Rightarrow> c
      | Some d \<Rightarrow> d)"

definition lower_char :: "char \<Rightarrow> char" where
  "lower_char c =
     (case map_of (zip ''ABCDEFGHIJKLMNOPQRSTUVWXYZ'' ''abcdefghijklmnopqrstuvwxyz'') c of
        None \<Rightarrow> c
      | Some d \<Rightarrow> d)"

definition upper :: "string \<Rightarrow> string" where
  "upper s = map upper_char s"

definition lower :: "string \<Rightarrow> string" where
  "lower s = map lower_char s"

text \<open>\<open>str(n)\<close> for a non-negative integer, as an f-string prints it.\<close>

fun digits :: "nat \<Rightarrow> string" where
  "digits n = (if n < 10 then [''0123456789'' ! n]
               else digits (n div 10) @ [''0123456789'' ! (n mod 10)])"

declare digits.simps [simp del]

definition str_int :: "int \<Rightarrow> string" where
  "str_int i = (if i < 0 then CHR ''-'' # digits (nat (- i)) else digits (nat i))"

text \<open>The slices \<open>s[:n]\<close> and \<open>s[-n:]\<close> for \<open>n > 0\<close>.\<close>

definition prefix_slice :: "nat \<Rightarrow> string \<Rightarrow> string" where
  "prefix_slice n s = take n s"

definition suffix_slice :: "nat \<Rightarrow> string \<Rightarrow> string" where
  "suffix_slice n s = drop (length s - n) s"

subsection \<open>Digests\<close>

text \<open>
  A digest object holds a fixed number of bits; \<open>hexdigest()\<close> writes them as lowercase
  hexadecimal digits, most significant first, four bits to a digit.
\<close>

definition hexdigit :: "nat \<Rightarrow> char" where
  "hexdigit n = ''0123456789abcdef'' ! (n mod 16)"

definition hexdigest :: "'a::len word \<Rightarrow> string" where
  "hexdigest w = map (\<lambda>i. hexdigit (unat (take_bit 4 (drop_bit (4 * i) w))))
                     (rev [0 ..< LENGTH('a) div 4])"

subsection \<open>Data\<close>

text \<open>
  A record of the credential document, \<open>{"password": ..., "role": ...}\<close>, and one of the
  protected-data document, \<open>{"notes": [...], "files": [...]}\<close>. The role is the string
  the document holds, not an enumeration: the code compares it with \<open>"admin"\<close>.
\<close>

record user_record =
  password :: string
  role :: string

record protected_entry =
  entry_notes :: "string list"
  entry_files :: "string list"

type_synonym datetime = int

record attempt_record =
  count :: nat
  freeze_time :: "datetime option"

type_synonym users_dict = "(string \<times> user_record) list"
type_synonym data_dict = "(string \<times> protected_entry) list"
type_synonym attempts_dict = "(string \<times> attempt_record) list"

text \<open>
  What \<open>json.load\<close> returns: any JSON value, a number as its literal. A credential
  mapping is the object \<open>json_of_users\<close> builds.
\<close>

datatype json =
  JNull
| JBool bool
| JNumber string
| JString string
| JArray "json list"
| JObject "(string \<times> json) list"

definition json_of_users :: "users_dict \<Rightarrow> json" where
  "json_of_users us =
     JObject (map (\<lambda>(username, u).
                     (username, JObject [(''password'', JString (password u)),
                                         (''role'', JString (role u))])) us)"

datatype py_error =
  EOFError | KeyError | OverflowError
| JSONDecodeError | UnicodeDecodeError | RecursionError | ValueError

text \<open>
  The library functions the class calls. \<open>json_load\<close> is \<open>open\<close> and \<open>json.load\<close> on
  the content of a file: it returns the value the content denotes, or raises:
  \<open>JSONDecodeError\<close> when the text is not JSON, \<open>UnicodeDecodeError\<close> when the bytes
  are not text in the encoding of the locale, \<open>RecursionError\<close> when the nesting is too
  deep, \<open>ValueError\<close> for an integer literal beyond the conversion limit.
\<close>

record 'd lib =
  sha256 :: "string \<Rightarrow> 256 word"
  md5 :: "string \<Rightarrow> 128 word"
  strftime :: "string \<Rightarrow> datetime \<Rightarrow> string"
  dump_users :: "users_dict \<Rightarrow> 'd"
  dump_data :: "data_dict \<Rightarrow> 'd"
  json_load :: "'d \<Rightarrow> py_error + json"

text \<open>
  The object and its world. A file is \<open>None\<close> while it does not exist. The clock is the
  sequence of readings \<open>datetime.now()\<close> returns, \<open>ticks\<close> the number of readings taken.
\<close>

record 'd state =
  users :: users_dict
  protected_data :: data_dict
  login_attempts :: attempts_dict
  user_data_file :: "'d option"
  protected_data_file :: "'d option"
  stdin :: "string list"
  stdout :: "string list"
  clock :: "nat \<Rightarrow> datetime"
  ticks :: nat

definition max_attempts :: nat where
  "max_attempts = 5"

definition freeze_duration :: int where
  "freeze_duration = 30"

definition timedelta_seconds :: "int \<Rightarrow> int" where
  "timedelta_seconds n = n * 1000000"

text \<open>
  \<open>datetime.max\<close>, the last microsecond of the year 9999, and \<open>datetime + timedelta\<close>,
  which raises \<open>OverflowError\<close> when the sum is not a \<open>datetime\<close>.
\<close>

definition datetime_max :: datetime where
  "datetime_max = 315537897599999999"

definition add_timedelta :: "datetime \<Rightarrow> int \<Rightarrow> py_error + datetime" where
  "add_timedelta t d = (if 0 \<le> t + d \<and> t + d \<le> datetime_max then Inr (t + d)
                        else Inl OverflowError)"

text \<open>The field \<open>seconds\<close> of a normalised \<open>timedelta\<close>.\<close>

definition td_seconds :: "int \<Rightarrow> int" where
  "td_seconds d = (d div 1000000) mod 86400"

subsection \<open>The terminal and the clock\<close>

definition bind :: "py_error + 'a \<Rightarrow> ('a \<Rightarrow> py_error + 'b) \<Rightarrow> py_error + 'b" where
  "bind m f = (case m of Inl e \<Rightarrow> Inl e | Inr x \<Rightarrow> f x)"

definition print :: "string \<Rightarrow> 'd state \<Rightarrow> 'd state" where
  "print line s = s\<lparr>stdout := stdout s @ [line]\<rparr>"

text \<open>\<open>input(prompt)\<close> writes the prompt and reads one line; at end of input it raises.\<close>

definition input :: "string \<Rightarrow> 'd state \<Rightarrow> py_error + (string \<times> 'd state)" where
  "input prompt s =
     (case stdin s of
        [] \<Rightarrow> Inl EOFError
      | l # ls \<Rightarrow> Inr (l, s\<lparr>stdin := ls, stdout := stdout s @ [prompt]\<rparr>))"

definition now :: "'d state \<Rightarrow> datetime \<times> 'd state" where
  "now s = (clock s (ticks s), s\<lparr>ticks := Suc (ticks s)\<rparr>)"

subsection \<open>Credential store\<close>

definition save_users :: "'d lib \<Rightarrow> users_dict \<Rightarrow> 'd state \<Rightarrow> 'd state" where
  "save_users L us s = s\<lparr>user_data_file := Some (dump_users L us)\<rparr>"

definition save_protected_data :: "'d lib \<Rightarrow> data_dict \<Rightarrow> 'd state \<Rightarrow> 'd state" where
  "save_protected_data L d s = s\<lparr>protected_data_file := Some (dump_data L d)\<rparr>"

text \<open>
  \<open>load_users\<close> returns what \<open>json.load\<close> returned, whatever its shape. Of the
  exceptions of \<open>json.load\<close> it catches \<open>JSONDecodeError\<close> alone; any other one leaves
  the method.
\<close>

definition load_users :: "'d lib \<Rightarrow> 'd state \<Rightarrow> py_error + (json \<times> 'd state)" where
  "load_users L s =
     (case user_data_file s of
        Some doc \<Rightarrow>
          (case json_load L doc of
             Inr v \<Rightarrow> Inr (v, s)
           | Inl JSONDecodeError \<Rightarrow>
               Inr (JObject [], print ''Error reading user data file. Creating new file.'' s)
           | Inl e \<Rightarrow> Inl e)
      | None \<Rightarrow>
          (let s1 = print ''User data file does not exist. Creating new empty file.'' s;
               empty_users = [];
               s2 = save_users L empty_users s1
           in Inr (json_of_users empty_users, s2)))"

definition hash_password :: "'d lib \<Rightarrow> string \<Rightarrow> string" where
  "hash_password L pw = hexdigest (sha256 L pw)"

subsection \<open>Lockout tracker\<close>

definition reset_attempts :: "string \<Rightarrow> attempt_record \<Rightarrow> 'd state \<Rightarrow> 'd state" where
  "reset_attempts username a s =
     s\<lparr>login_attempts :=
         AList.update username (a\<lparr>count := 0, freeze_time := None\<rparr>) (login_attempts s)\<rparr>"

definition is_frozen :: "string \<Rightarrow> 'd state \<Rightarrow> bool \<times> 'd state" where
  "is_frozen username s =
     (case map_of (login_attempts s) username of
        None \<Rightarrow> (False, s)
      | Some a \<Rightarrow>
          if max_attempts \<le> count a then
            (case freeze_time a of
               None \<Rightarrow> (False, reset_attempts username a s)
             | Some ft \<Rightarrow>
                 (let (t1, s1) = now s in
                  if t1 < ft then
                    (let (t2, s2) = now s1;
                         time_left = td_seconds (ft - t2)
                     in (True, print (CHR 0x0A # ''Account is frozen. Try again in ''
                                        @ str_int time_left @ '' seconds.'') s2))
                  else (False, reset_attempts username a s1)))
          else (False, s))"

subsection \<open>Registration\<close>

text \<open>
  \<open>register_user(admin_username=None)\<close> of \<open>security_system.py\<close>. The role is read
  from the terminal only when the store is not empty.
\<close>

definition ask_role :: "bool \<Rightarrow> 'd state \<Rightarrow> py_error + (string \<times> 'd state)" where
  "ask_role first_user s =
     (if first_user then
        Inr (''admin'', print ''First user created will be an administrator.'' s)
      else
        bind (input ''Enter role (admin/user): '' s) (\<lambda>(line, s1).
          let r = lower (strip line)
          in Inr (if r \<in> set [''admin'', ''user''] then r else ''user'', s1)))"

definition register_user ::
  "'d lib \<Rightarrow> string option \<Rightarrow> 'd state \<Rightarrow> py_error + (bool \<times> 'd state)" where
  "register_user L admin_username s =
     (let first_user = (users s = []) in
      if \<not> first_user \<and> admin_username \<noteq> None \<and>
         (case map_of (users s) (the admin_username) of
            None \<Rightarrow> True
          | Some adm \<Rightarrow> role adm \<noteq> ''admin'')
      then Inr (False, print ''Permission denied. Only admins can register new users.'' s)
      else
        (let s1 = print (CHR 0x0A # ''==== USER REGISTRATION ===='') s in
         bind (input ''Enter new username: '' s1) (\<lambda>(line, s2).
         let new_username = strip line in
         if map_of (users s2) new_username \<noteq> None
         then Inr (False, print ''Username already exists!'' s2)
         else
           bind (input ''Enter password: '' s2) (\<lambda>(pw, s3).
           bind (input ''Confirm password: '' s3) (\<lambda>(confirm_password, s4).
           if pw \<noteq> confirm_password
           then Inr (False, print ''Passwords do not match!'' s4)
           else
             bind (ask_role first_user s4) (\<lambda>(r, s5).
             let hashed_password = hash_password L pw;
                 s6 = print (''Password hash created: '' @ prefix_slice 10 hashed_password
                             @ ''...'' @ suffix_slice 10 hashed_password) s5;
                 s7 = s6\<lparr>users := AList.update new_username
                                      \<lparr>password = hashed_password, role = r\<rparr> (users s6)\<rparr>;
                 s8 = s7\<lparr>protected_data := AList.update new_username
                                      \<lparr>entry_notes = [], entry_files = []\<rparr>
                                      (protected_data s7)\<rparr>;
                 s9 = save_users L (users s8) s8;
                 s10 = save_protected_data L (protected_data s9) s9
             in Inr (True, print (''User '' @ [CHR 0x27] @ new_username @ [CHR 0x27]
                                  @ '' created successfully with role '' @ [CHR 0x27] @ r
                                  @ [CHR 0x27] @ ''!'') s10)))))))"

subsection \<open>Authenticator\<close>

definition set_count :: "string \<Rightarrow> attempt_record \<Rightarrow> nat \<Rightarrow> 'd state \<Rightarrow> 'd state" where
  "set_count username a n s =
     s\<lparr>login_attempts := AList.update username (a\<lparr>count := n\<rparr>) (login_attempts s)\<rparr>"

definition set_freeze_time ::
  "string \<Rightarrow> attempt_record \<Rightarrow> datetime \<Rightarrow> 'd state \<Rightarrow> 'd state" where
  "set_freeze_time username a t s =
     s\<lparr>login_attempts := AList.update username (a\<lparr>freeze_time := Some t\<rparr>) (login_attempts s)\<rparr>"

text \<open>
  \<open>login\<close> of \<open>security_system.py\<close>: the \<open>while True\<close> loop is \<open>login_loop\<close>. Every
  turn of the loop that does not return has read one line, so the loop ends with the
  input.
\<close>

function login_loop ::
  "'d lib \<Rightarrow> string \<Rightarrow> 'd state \<Rightarrow> py_error + (string option \<times> 'd state)" where
  "login_loop L username s =
     (case is_frozen username s of
        (True, s1) \<Rightarrow> Inr (None, s1)
      | (False, s1) \<Rightarrow>
          (case input ''Password: '' s1 of
             Inl e \<Rightarrow> Inl e
           | Inr (pw, s2) \<Rightarrow>
               (let hashed_password = hash_password L pw in
                case map_of (users s2) username of
                  None \<Rightarrow> Inl KeyError
                | Some u \<Rightarrow>
                    (case map_of (login_attempts s2) username of
                       None \<Rightarrow> Inl KeyError
                     | Some a \<Rightarrow>
                         if hashed_password = password u then
                           (let s3 = set_count username a 0 s2;
                                s4 = print (CHR 0x0A # ''Welcome, '' @ username @ ''!'') s3
                            in case input ''Press Enter to continue...'' s4 of
                                 Inl e \<Rightarrow> Inl e
                               | Inr (_, s5) \<Rightarrow> Inr (Some username, s5))
                         else
                           (let a1 = a\<lparr>count := count a + 1\<rparr>;
                                s3 = set_count username a (count a + 1) s2;
                                attempts_left = int max_attempts - int (count a1)
                            in if attempts_left \<le> 0 then
                                 (let s4 = print (CHR 0x0A #
                                             ''Too many failed attempts! Account frozen.'') s3;
                                      (t, s5) = now s4
                                  in case add_timedelta t (timedelta_seconds freeze_duration) of
                                       Inl e \<Rightarrow> Inl e
                                     | Inr ft \<Rightarrow>
                                         Inr (None, set_freeze_time username a1 ft s5))
                               else
                                 (let s4 = print (''Invalid password. '' @ str_int attempts_left
                                                  @ '' attempts remaining.'') s3;
                                      s5 = print ''Try again or press Ctrl+C to cancel login.'' s4
                                  in login_loop L username s5))))))"
  by pat_completeness auto
termination
proof (relation "measure (\<lambda>(L, username, s). length (stdin s))", goal_cases)
  case 1
  show ?case by simp
next
  case (2 L username s x1 s1 x2 pw s2)
  have "stdin (snd (is_frozen username s)) = stdin s"
    by (simp add: is_frozen_def reset_attempts_def now_def print_def
             split: option.splits prod.splits)
  moreover from 2 have "s1 = snd (is_frozen username s)"
    by (metis snd_conv)
  ultimately have "stdin s1 = stdin s"
    by simp
  moreover from 2 have "length (stdin s2) < length (stdin s1)"
    by (auto simp: input_def split: list.splits)
  ultimately show ?case
    using 2 by (simp add: set_count_def print_def)
qed

declare login_loop.simps [simp del]

definition login :: "'d lib \<Rightarrow> 'd state \<Rightarrow> py_error + (string option \<times> 'd state)" where
  "login L s =
     (let s1 = print (CHR 0x0A # ''==== SECURITY SYSTEM LOGIN ===='') s in
      case input ''Username: '' s1 of
        Inl e \<Rightarrow> Inl e
      | Inr (line, s2) \<Rightarrow>
          (let username = strip line in
           if map_of (users s2) username = None
           then Inr (None, print ''Invalid username or password'' s2)
           else
             (let s3 = (if map_of (login_attempts s2) username = None
                        then s2\<lparr>login_attempts :=
                                  AList.update username \<lparr>count = 0, freeze_time = None\<rparr>
                                    (login_attempts s2)\<rparr>
                        else s2)
              in login_loop L username s3)))"

text \<open>
  \<open>login\<close> of \<open>BSS/bss.py\<close>: one attempt per call, the frozen check before the
  lockout entry is created, and \<open>getpass.getpass\<close> (modelled as \<open>input\<close>) for the
  password.
\<close>

definition bss_login :: "'d lib \<Rightarrow> 'd state \<Rightarrow> py_error + (string option \<times> 'd state)" where
  "bss_login L s =
     (let s1 = print (CHR 0x0A # ''==== SECURITY SYSTEM LOGIN ===='') s in
      case input ''Username: '' s1 of
        Inl e \<Rightarrow> Inl e
      | Inr (line, s2) \<Rightarrow>
          (let username = strip line in
           if map_of (users s2) username = None
           then Inr (None, print ''Invalid username or password'' s2)
           else
             (case is_frozen username s2 of
                (True, s3) \<Rightarrow> Inr (None, s3)
              | (False, s3) \<Rightarrow>
                  (let s4 = (if map_of (login_attempts s3) username = None
                             then s3\<lparr>login_attempts :=
                                       AList.update username \<lparr>count = 0, freeze_time = None\<rparr>
                                         (login_attempts s3)\<rparr>
                             else s3)
                   in case input ''Password: '' s4 of
                        Inl e \<Rightarrow> Inl e
                      | Inr (pw, s5) \<Rightarrow>
                          (let hashed_password = hash_password L pw in
                           case map_of (users s5) username of
                             None \<Rightarrow> Inl KeyError
                           | Some u \<Rightarrow>
                               (case map_of (login_attempts s5) username of
                                  None \<Rightarrow> Inl KeyError
                                | Some a \<Rightarrow>
                                    if hashed_password = password u then
                                      (let s6 = set_count username a 0 s5
                                       in Inr (Some username,
                                               print (CHR 0x0A # ''Welcome, '' @ username @ ''!'') s6))
                                    else
                                      (let a1 = a\<lparr>count := count a + 1\<rparr>;
                                           s6 = set_count username a (count a + 1) s5;
                                           attempts_left = int max_attempts - int (count a1)
                                       in if attempts_left \<le> 0 then
                                            (let s7 = print (CHR 0x0A #
                                                        ''Too many failed attempts! Account frozen.'') s6;
                                                 (t, s8) = now s7
                                             in case add_timedelta t
                                                       (timedelta_seconds freeze_duration) of
                                                  Inl e \<Rightarrow> Inl e
                                                | Inr ft \<Rightarrow>
                                                    Inr (None, set_freeze_time username a1 ft s8))
                                          else
                                            Inr (None, print (''Invalid username or password. ''
                                                         @ str_int attempts_left
                                                         @ '' attempts remaining.'') s6))))))))"

subsection \<open>Password replacement\<close>

definition set_password :: "'d lib \<Rightarrow> string \<Rightarrow> user_record \<Rightarrow> string \<Rightarrow> 'd state \<Rightarrow> 'd state" where
  "set_password L username u new_password s =
     s\<lparr>users := AList.update username (u\<lparr>password := hash_password L new_password\<rparr>) (users s)\<rparr>"

text \<open>\<open>change_password(username)\<close> of \<open>BSS/bss.py\<close>.\<close>

definition change_password :: "'d lib \<Rightarrow> string \<Rightarrow> 'd state \<Rightarrow> py_error + (bool \<times> 'd state)" where
  "change_password L username s =
     bind (input (CHR 0x0A # ''Enter current password: '') s) (\<lambda>(current_password, s1).
     let hashed_current = hash_password L current_password in
     case map_of (users s1) username of
       None \<Rightarrow> Inl KeyError
     | Some u \<Rightarrow>
         if hashed_current \<noteq> password u
         then Inr (False, print ''Incorrect password!'' s1)
         else
           bind (input ''Enter new password: '' s1) (\<lambda>(new_password, s2).
           bind (input ''Confirm new password: '' s2) (\<lambda>(confirm_password, s3).
           if new_password \<noteq> confirm_password
           then Inr (False, print ''Passwords do not match!'' s3)
           else
             (let s4 = set_password L username u new_password s3;
                  s5 = save_users L (users s4) s4
              in Inr (True, print ''Password changed successfully!'' s5)))))"

text \<open>\<open>admin_reset_password()\<close> of \<open>security_system.py\<close>.\<close>

definition admin_reset_password :: "'d lib \<Rightarrow> 'd state \<Rightarrow> py_error + (unit \<times> 'd state)" where
  "admin_reset_password L s =
     (let s1 = print (CHR 0x0A # ''==== ADMIN PASSWORD RESET ===='') s;
          s2 = print ''Available users:'' s1;
          s3 = foldl (\<lambda>st (username, u).
                        print (''- '' @ username @ '' ('' @ role u @ '')'') st) s2 (users s2)
      in bind (input (CHR 0x0A # ''Enter username to reset: '') s3) (\<lambda>(line, s4).
         let target_username = strip line in
         case map_of (users s4) target_username of
           None \<Rightarrow> Inr ((), print (''User '' @ [CHR 0x27] @ target_username @ [CHR 0x27]
                                    @ '' does not exist.'') s4)
         | Some u \<Rightarrow>
             bind (input ''Enter new password for user: '' s4) (\<lambda>(new_password, s5).
             bind (input ''Confirm new password: '' s5) (\<lambda>(confirm_password, s6).
             if new_password \<noteq> confirm_password
             then Inr ((), print ''Passwords do not match!'' s6)
             else
               (let s7 = set_password L target_username u new_password s6;
                    s8 = save_users L (users s7) s7
                in Inr ((), print (''Password for '' @ target_username
                                   @ '' has been reset successfully!'') s8))))))"

subsection \<open>Emergency reset\<close>

definition reset_seed :: "'d lib \<Rightarrow> string \<Rightarrow> datetime \<Rightarrow> string" where
  "reset_seed L username t = username @ strftime L ''%Y%m%d'' t"

definition reset_code :: "'d lib \<Rightarrow> string \<Rightarrow> datetime \<Rightarrow> string" where
  "reset_code L username t = upper (prefix_slice 6 (hexdigest (md5 L (reset_seed L username t))))"

text \<open>\<open>emergency_profile_reset()\<close> of \<open>security_system.py\<close>.\<close>

definition emergency_profile_reset :: "'d lib \<Rightarrow> 'd state \<Rightarrow> py_error + (unit \<times> 'd state)" where
  "emergency_profile_reset L s =
     (let s1 = print (CHR 0x0A # ''==== EMERGENCY PROFILE RESET ===='') s;
          s2 = print ''WARNING: This will reset your password but preserve your data.'' s1;
          s3 = print ''You will need to verify your identity to proceed.'' s2
      in bind (input (CHR 0x0A # ''Enter your username: '') s3) (\<lambda>(line, s4).
         let username = strip line in
         case map_of (users s4) username of
           None \<Rightarrow> Inr ((), print ''Username not found.'' s4)
         | Some u \<Rightarrow>
             (let s5 = print (CHR 0x0A # ''Identity verification for '' @ username @ '':'') s4;
                  (t, s6) = now s5;
                  code = reset_code L username t;
                  s7 = print (CHR 0x0A #
                         ''In a real system, a verification code would be sent to your'') s6;
                  s8 = print ''registered email or phone. For this demo, use this code:'' s7;
                  s9 = print (''SECURITY CODE: '' @ code) s8
              in bind (input (CHR 0x0A # ''Enter the security code: '') s9) (\<lambda>(line2, s10).
                 let attempt = upper (strip line2) in
                 if attempt \<noteq> code
                 then Inr ((), print ''Invalid security code. Reset failed.'' s10)
                 else
                   bind (input ''Enter new password: '' s10) (\<lambda>(new_password, s11).
                   bind (input ''Confirm new password: '' s11) (\<lambda>(confirm_password, s12).
                   if new_password \<noteq> confirm_password
                   then Inr ((), print ''Passwords do not match! Reset canceled.'' s12)
                   else
                     (let s13 = set_password L username u new_password s12;
                          s14 = save_users L (users s13) s13;
                          s15 = print (CHR 0x0A # ''Password for '' @ username
                                       @ '' has been reset successfully!'') s14
                      in Inr ((), print ''You can now log in with your new password.'' s15))))))))"

subsection \<open>What a caller observes\<close>

text \<open>The result of a method together with the lines the terminal shows.\<close>

definition outcome :: "py_error + ('a \<times> 'd state) \<Rightarrow> py_error + ('a \<times> string list)" where
  "outcome res = (case res of Inl e \<Rightarrow> Inl e | Inr (r, s) \<Rightarrow> Inr (r, stdout s))"

subsection \<open>The role invariant of the data model\<close>

definition valid_role :: "string \<Rightarrow> bool" where
  "valid_role r = (r = ''admin'' \<or> r = ''user'')"

definition roles_valid :: "users_dict \<Rightarrow> bool" where
  "roles_valid us = list_all (\<lambda>(username, u). valid_role (role u)) us"

subsection \<open>A concrete library and concrete states\<close>

text \<open>
  A small stand-in for the library, on which every method can be run: documents are
  tagged values (text that is not JSON, bytes that are not text, the two documents the
  class writes, any other JSON value), digests are computed from the sum of the
  character codes, and \<open>strftime\<close> prints the number of the day.
\<close>

datatype document =
  Garbage string
| Bad_bytes string
| Users_document users_dict
| Data_document data_dict
| Json_document json

definition json_of_data :: "data_dict \<Rightarrow> json" where
  "json_of_data ds =
     JObject (map (\<lambda>(username, e).
                     (username, JObject [(''notes'', JArray (map JString (entry_notes e))),
                                         (''files'', JArray (map JString (entry_files e)))])) ds)"

definition test_lib :: "document lib" where
  "test_lib = \<lparr>sha256 = (\<lambda>s. of_nat (sum_list (map of_char s))),
               md5 = (\<lambda>s. of_nat (sum_list (map of_char s))
                           * 0x9e3779b97f4a7c15f39cc0605cedc835),
               strftime = (\<lambda>fmt t. digits (nat (t div 86400000000))),
               dump_users = Users_document,
               dump_data = Data_document,
               json_load = (\<lambda>d. case d of
                                   Garbage text \<Rightarrow> Inl JSONDecodeError
                                 | Bad_bytes bytes \<Rightarrow> Inl UnicodeDecodeError
                                 | Users_document us \<Rightarrow> Inr (json_of_users us)
                                 | Data_document ds \<Rightarrow> Inr (json_of_data ds)
                                 | Json_document v \<Rightarrow> Inr v)\<rparr>"

definition empty_state :: "document state" where
  "empty_state = \<lparr>users = [], protected_data = [], login_attempts = [],
                  user_data_file = None, protected_data_file = None,
                  stdin = [], stdout = [], clock = (\<lambda>n. int n * 1000000), ticks = 0\<rparr>"

definition alice :: user_record where
  "alice = \<lparr>password = hash_password test_lib ''secret'', role = ''admin''\<rparr>"

definition alice_state :: "document state" where
  "alice_state = empty_state\<lparr>users := [(''alice'', alice)],
                              user_data_file := Some (Users_document [(''alice'', alice)])\<rparr>"

definition bob :: user_record where
  "bob = \<lparr>password = hash_password test_lib ''hunter2'', role = ''user''\<rparr>"

text \<open>Two users, a note, and a lockout entry for \<open>alice\<close> frozen until second 30.\<close>

definition busy_state :: "document state" where
  "busy_state = empty_state\<lparr>users := [(''alice'', alice), (''bob'', bob)],
                             protected_data := [(''alice'', \<lparr>entry_notes = [''a note''],
                                                             entry_files = []\<rparr>)],
                             login_attempts := [(''alice'', \<lparr>count = 5,
                                                             freeze_time = Some 30000000\<rparr>)]\<rparr>"

section \<open>Properties\<close>

subsection \<open>Registration\<close>

text \<open>
  Claim C3. A registration against an empty credential store, with matching password and
  confirmation, stores the new user with role \<open>admin\<close> whatever the caller passes and
  whatever the terminal holds next (no role is read): the record holds the hash of the
  password, an empty note collection is created, and both files hold the new
  dictionaries when \<open>True\<close> is returned.
\<close>

theorem first_registration_is_admin:
  assumes "users s = []" and "stdin s = line # pw # pw # rest"
  shows "\<exists>s'. register_user L admin_username s = Inr (True, s')
           \<and> users s' = [(strip line, \<lparr>password = hash_password L pw, role = ''admin''\<rparr>)]
           \<and> map_of (protected_data s') (strip line) = Some \<lparr>entry_notes = [], entry_files = []\<rparr>
           \<and> user_data_file s' = Some (dump_users L (users s'))
           \<and> protected_data_file s' = Some (dump_data L (protected_data s'))
           \<and> stdin s' = rest"
  using assms
  by (simp add: register_user_def ask_role_def bind_def input_def print_def
        save_users_def save_protected_data_def Let_def update_conv')

theorem first_registration_is_admin_witness:
  "\<exists>s'. register_user test_lib None (empty_state\<lparr>stdin := [''alice'', ''pw1'', ''pw1'', ''user'']\<rparr>)
           = Inr (True, s')
       \<and> users s' = [(''alice'', \<lparr>password = hash_password test_lib ''pw1'', role = ''admin''\<rparr>)]
       \<and> stdin s' = [''user'']"
proof -
  have "strip ''alice'' = ''alice''"
    by (simp add: strip_def isspace_def)
  with first_registration_is_admin [of "empty_state\<lparr>stdin := [''alice'', ''pw1'', ''pw1'', ''user'']\<rparr>"
          "''alice''" "''pw1''" "[''user'']" test_lib None]
  show ?thesis
    by (auto simp: empty_state_def)
qed

subsection \<open>Self-service password change\<close>

text \<open>
  Claim C10. For a registered user, \<open>change_password\<close> of \<open>BSS/bss.py\<close> returns
  \<open>False\<close> and leaves the user dictionary and the credential file as they were when the
  current password does not hash to the stored hash, or when the new password and its
  confirmation differ; when both checks pass it returns \<open>True\<close>, the stored hash is the
  hash of the new password (the rest of the record unchanged) and the file holds the
  new dictionary.
\<close>

theorem change_password_checks:
  assumes "map_of (users s) username = Some u" and "stdin s = current # rest"
  shows "(hash_password L current \<noteq> password u \<longrightarrow>
            (\<exists>s'. change_password L username s = Inr (False, s')
                  \<and> users s' = users s \<and> user_data_file s' = user_data_file s))
       \<and> (hash_password L current = password u \<longrightarrow>
            (\<forall>new confirm rest'. rest = new # confirm # rest' \<longrightarrow>
               (new \<noteq> confirm \<longrightarrow>
                  (\<exists>s'. change_password L username s = Inr (False, s')
                        \<and> users s' = users s \<and> user_data_file s' = user_data_file s))
             \<and> (new = confirm \<longrightarrow>
                  (\<exists>s'. change_password L username s = Inr (True, s')
                        \<and> users s' = AList.update username
                                        (u\<lparr>password := hash_password L new\<rparr>) (users s)
                        \<and> user_data_file s' = Some (dump_users L (users s'))))))"
  using assms
  by (simp add: change_password_def bind_def input_def print_def set_password_def
        save_users_def Let_def)

theorem change_password_checks_witness:
  "(\<exists>s'. change_password test_lib ''alice'' (alice_state\<lparr>stdin := [''wrong'', ''new'', ''new'']\<rparr>)
            = Inr (False, s') \<and> users s' = [(''alice'', alice)])
   \<and> (\<exists>s'. change_password test_lib ''alice'' (alice_state\<lparr>stdin := [''secret'', ''new'', ''old'']\<rparr>)
            = Inr (False, s') \<and> users s' = [(''alice'', alice)])
   \<and> (\<exists>s'. change_password test_lib ''alice'' (alice_state\<lparr>stdin := [''secret'', ''new'', ''new'']\<rparr>)
            = Inr (True, s')
          \<and> users s' = [(''alice'', alice\<lparr>password := hash_password test_lib ''new''\<rparr>)])"
proof -
  have wrong: "hash_password test_lib ''wrong'' \<noteq> password alice"
    unfolding alice_def user_record.simps by code_simp
  have right: "hash_password test_lib ''secret'' = password alice"
    by (simp add: alice_def)
  have known: "\<And>xs. map_of (users (alice_state\<lparr>stdin := xs\<rparr>)) ''alice'' = Some alice"
    by (simp add: alice_state_def empty_state_def)
  have "''new'' \<noteq> ''old''"
    by simp
  with wrong right
    change_password_checks [OF known, of "[''wrong'', ''new'', ''new'']" "''wrong''"
                               "[''new'', ''new'']" test_lib]
    change_password_checks [OF known, of "[''secret'', ''new'', ''old'']" "''secret''"
                               "[''new'', ''old'']" test_lib]
    change_password_checks [OF known, of "[''secret'', ''new'', ''new'']" "''secret''"
                               "[''new'', ''new'']" test_lib]
  show ?thesis
    by (auto simp: alice_state_def empty_state_def)
qed

subsection \<open>Emergency reset\<close>

lemma length_hexdigest: "length (hexdigest (w :: 'a::len word)) = LENGTH('a) div 4"
  by (simp add: hexdigest_def)

lemma hexdigit_lower_hex: "hexdigit n \<in> set ''0123456789abcdef''"
  unfolding hexdigit_def by (rule nth_mem) simp

lemma set_hexdigest: "set (hexdigest w) \<subseteq> set ''0123456789abcdef''"
  unfolding hexdigest_def using hexdigit_lower_hex by auto

lemma upper_char_hex: "c \<in> set ''0123456789abcdef'' \<Longrightarrow> upper_char c \<in> set ''0123456789ABCDEF''"
  unfolding upper_char_def by (simp, elim disjE) simp_all

lemma upper_char_fixed: "c \<in> set ''0123456789ABCDEF'' \<Longrightarrow> upper_char c = c"
  unfolding upper_char_def by (simp, elim disjE) simp_all

lemma set_reset_code: "set (reset_code L username t) \<subseteq> set ''0123456789ABCDEF''"
proof
  fix c
  assume "c \<in> set (reset_code L username t)"
  then obtain d where d: "d \<in> set (take 6 (hexdigest (md5 L (reset_seed L username t))))"
    and c: "c = upper_char d"
    by (auto simp: reset_code_def upper_def prefix_slice_def)
  from d have "d \<in> set (hexdigest (md5 L (reset_seed L username t)))"
    by (rule in_set_takeD)
  with set_hexdigest have "d \<in> set ''0123456789abcdef''"
    by blast
  with c show "c \<in> set ''0123456789ABCDEF''"
    by (simp only: upper_char_hex)
qed

lemma length_reset_code: "length (reset_code L username t) = 6"
  by (simp add: reset_code_def upper_def prefix_slice_def length_hexdigest)

lemma upper_reset_code: "upper (reset_code L username t) = reset_code L username t"
proof -
  have "\<forall>c \<in> set (reset_code L username t). upper_char c = c"
    using set_reset_code [of L username t] upper_char_fixed by blast
  then show ?thesis
    unfolding upper_def by (simp add: map_idI)
qed


lemma emergency_reset_success:
  assumes "stdin s = line # supplied # new # new # rest"
    and "map_of (users s) (strip line) = Some u"
    and "upper (strip supplied) = reset_code L (strip line) (clock s (ticks s))"
  shows "\<exists>s'. emergency_profile_reset L s = Inr ((), s')
           \<and> users s' = AList.update (strip line) (u\<lparr>password := hash_password L new\<rparr>) (users s)
           \<and> protected_data s' = protected_data s
           \<and> login_attempts s' = login_attempts s
           \<and> protected_data_file s' = protected_data_file s
           \<and> user_data_file s' = Some (dump_users L (users s'))
           \<and> stdin s' = rest"
  using assms
  by (simp add: emergency_profile_reset_def bind_def input_def print_def now_def
        set_password_def save_users_def Let_def)

lemma emergency_reset_bad_code:
  assumes "stdin s = line # supplied # rest"
    and "map_of (users s) (strip line) = Some u"
    and "upper (strip supplied) \<noteq> reset_code L (strip line) (clock s (ticks s))"
  shows "\<exists>s'. emergency_profile_reset L s = Inr ((), s')
           \<and> users s' = users s \<and> user_data_file s' = user_data_file s \<and> stdin s' = rest"
  using assms
  by (simp add: emergency_profile_reset_def bind_def input_def print_def now_def Let_def)

text \<open>
  Claim C5. The emergency code is the first six hexadecimal digits, in upper case, of the
  MD5 digest of the username followed by the date formatted with \<open>%Y%m%d\<close>: it has six
  characters, all among \<open>0-9A-F\<close>, and upper-casing leaves it unchanged. Two readings of
  the clock that format to the same day give the same code. The supplied code is
  stripped and upper-cased before it is compared: for a known user two inputs with the
  same upper-cased form behave alike, a mismatch leaves the users untouched and a match (with a
  confirmed new password) replaces the password.
\<close>

theorem reset_code_format_and_check:
  "length (reset_code L username t) = 6
   \<and> set (reset_code L username t) \<subseteq> set ''0123456789ABCDEF''
   \<and> upper (reset_code L username t) = reset_code L username t
   \<and> reset_code L username t
       = upper (take 6 (hexdigest (md5 L (username @ strftime L ''%Y%m%d'' t))))
   \<and> (strftime L ''%Y%m%d'' t = strftime L ''%Y%m%d'' t'
        \<longrightarrow> reset_code L username t = reset_code L username t')
   \<and> (map_of (users s) (strip line) = Some u
        \<longrightarrow> (upper (strip a) = upper (strip b)
             \<longrightarrow> emergency_profile_reset L (s\<lparr>stdin := line # a # rest\<rparr>)
                 = emergency_profile_reset L (s\<lparr>stdin := line # b # rest\<rparr>))
          \<and> (upper (strip a) \<noteq> reset_code L (strip line) (clock s (ticks s))
             \<longrightarrow> (\<exists>s'. emergency_profile_reset L (s\<lparr>stdin := line # a # rest\<rparr>) = Inr ((), s')
                       \<and> users s' = users s \<and> stdin s' = rest))
          \<and> (upper (strip a) = reset_code L (strip line) (clock s (ticks s))
             \<longrightarrow> (\<exists>s'. emergency_profile_reset L (s\<lparr>stdin := line # a # new # new # rest\<rparr>)
                         = Inr ((), s')
                       \<and> users s' = AList.update (strip line)
                                       (u\<lparr>password := hash_password L new\<rparr>) (users s)
                       \<and> stdin s' = rest)))"
proof -
  have same_day: "strftime L ''%Y%m%d'' t = strftime L ''%Y%m%d'' t'
                  \<longrightarrow> reset_code L username t = reset_code L username t'"
    by (simp add: reset_code_def reset_seed_def)
  have same_upper: "map_of (users s) (strip line) = Some u
        \<longrightarrow> upper (strip a) = upper (strip b)
        \<longrightarrow> emergency_profile_reset L (s\<lparr>stdin := line # a # rest\<rparr>)
            = emergency_profile_reset L (s\<lparr>stdin := line # b # rest\<rparr>)"
    by (simp add: emergency_profile_reset_def bind_def input_def print_def now_def Let_def)
  have reject: "map_of (users s) (strip line) = Some u
        \<longrightarrow> upper (strip a) \<noteq> reset_code L (strip line) (clock s (ticks s))
        \<longrightarrow> (\<exists>s'. emergency_profile_reset L (s\<lparr>stdin := line # a # rest\<rparr>) = Inr ((), s')
                  \<and> users s' = users s \<and> stdin s' = rest)"
    using emergency_reset_bad_code [of "s\<lparr>stdin := line # a # rest\<rparr>" line a rest u L]
    by auto
  have accept: "map_of (users s) (strip line) = Some u
        \<longrightarrow> upper (strip a) = reset_code L (strip line) (clock s (ticks s))
        \<longrightarrow> (\<exists>s'. emergency_profile_reset L (s\<lparr>stdin := line # a # new # new # rest\<rparr>)
                    = Inr ((), s')
                  \<and> users s' = AList.update (strip line)
                                  (u\<lparr>password := hash_password L new\<rparr>) (users s)
                  \<and> stdin s' = rest)"
    using emergency_reset_success [of "s\<lparr>stdin := line # a # new # new # rest\<rparr>"
                                      line a new rest u L]
    by auto
  have format: "reset_code L username t
       = upper (take 6 (hexdigest (md5 L (username @ strftime L ''%Y%m%d'' t))))"
    by (simp add: reset_code_def reset_seed_def prefix_slice_def)
  from length_reset_code set_reset_code upper_reset_code format same_day same_upper
    reject accept
  show ?thesis
    by blast
qed

theorem reset_code_format_and_check_witness:
  "(length (reset_code test_lib ''alice'' 0) = 6
     \<and> reset_code test_lib ''alice'' 0 = reset_code test_lib ''alice'' 1
     \<and> emergency_profile_reset test_lib (alice_state\<lparr>stdin := [''alice'', ''dceb52'', ''x'']\<rparr>)
       = emergency_profile_reset test_lib (alice_state\<lparr>stdin := [''alice'', '' DCEB52'', ''x'']\<rparr>)
     \<and> (\<exists>s'. emergency_profile_reset test_lib (alice_state\<lparr>stdin := [''alice'', ''000000'']\<rparr>)
             = Inr ((), s')
           \<and> users s' = users alice_state))
   \<and> (\<exists>s'. emergency_profile_reset test_lib
               (alice_state\<lparr>stdin := [''alice'', '' dceb52'', ''new'', ''new'']\<rparr>)
             = Inr ((), s')
           \<and> users s' = AList.update (strip ''alice'')
                           (alice\<lparr>password := hash_password test_lib ''new''\<rparr>)
                           (users alice_state))"
proof -
  have name: "strip ''alice'' = ''alice''"
    by (simp add: strip_def isspace_def)
  have known: "map_of (users alice_state) (strip ''alice'') = Some alice"
    by (simp add: name alice_state_def empty_state_def)
  have day: "strftime test_lib ''%Y%m%d'' 0 = strftime test_lib ''%Y%m%d'' 1"
    by (simp add: test_lib_def)
  have same: "upper (strip ''dceb52'') = upper (strip '' DCEB52'')"
    by code_simp
  have time: "clock alice_state (ticks alice_state) = 0"
    by (simp add: alice_state_def empty_state_def)
  have bad: "upper (strip ''000000'') \<noteq> reset_code test_lib (strip ''alice'') (clock alice_state (ticks alice_state))"
    unfolding time by code_simp
  have good: "upper (strip '' dceb52'') = reset_code test_lib (strip ''alice'') (clock alice_state (ticks alice_state))"
    unfolding time by code_simp
  from known day same bad
    reset_code_format_and_check [where L = test_lib and username = "''alice''" and t = 0
      and t' = 1 and s = alice_state and line = "''alice''" and a = "''dceb52''"
      and b = "'' DCEB52''" and rest = "[''x'']" and u = alice]
    reset_code_format_and_check [where L = test_lib and s = alice_state and line = "''alice''"
      and a = "''000000''" and rest = "[]" and u = alice]
  have part1: "length (reset_code test_lib ''alice'' 0) = 6
     \<and> reset_code test_lib ''alice'' 0 = reset_code test_lib ''alice'' 1
     \<and> emergency_profile_reset test_lib (alice_state\<lparr>stdin := [''alice'', ''dceb52'', ''x'']\<rparr>)
       = emergency_profile_reset test_lib (alice_state\<lparr>stdin := [''alice'', '' DCEB52'', ''x'']\<rparr>)
     \<and> (\<exists>s'. emergency_profile_reset test_lib (alice_state\<lparr>stdin := [''alice'', ''000000'']\<rparr>)
             = Inr ((), s')
           \<and> users s' = users alice_state)"
    by blast
  from known good
    reset_code_format_and_check [where L = test_lib and s = alice_state and line = "''alice''"
      and a = "'' dceb52''" and rest = "[]" and u = alice and new = "''new''"]
  have part2: "\<exists>s'. emergency_profile_reset test_lib
               (alice_state\<lparr>stdin := [''alice'', '' dceb52'', ''new'', ''new'']\<rparr>)
             = Inr ((), s')
           \<and> users s' = AList.update (strip ''alice'')
                           (alice\<lparr>password := hash_password test_lib ''new''\<rparr>)
                           (users alice_state)"
    by blast
  from part1 part2 show ?thesis
    by (rule conjI)
qed

text \<open>
  Claim C6. A successful emergency reset (known user, matching code, confirmed new
  password) replaces the password hash of that user only: the role of the user, every
  other user's record, the order of the users, the protected data and its file are as
  before, and the lockout dictionary is neither changed nor read (running the reset with
  any other lockout dictionary gives the same result with that dictionary in place).
\<close>

theorem emergency_reset_frame:
  assumes "stdin s = line # supplied # new # new # rest"
    and "map_of (users s) (strip line) = Some u"
    and "upper (strip supplied) = reset_code L (strip line) (clock s (ticks s))"
  shows "\<exists>s'. emergency_profile_reset L s = Inr ((), s')
           \<and> map_of (users s') (strip line) = Some (u\<lparr>password := hash_password L new\<rparr>)
           \<and> role (u\<lparr>password := hash_password L new\<rparr>) = role u
           \<and> (\<forall>k. k \<noteq> strip line \<longrightarrow> map_of (users s') k = map_of (users s) k)
           \<and> map fst (users s') = map fst (users s)
           \<and> protected_data s' = protected_data s
           \<and> protected_data_file s' = protected_data_file s
           \<and> login_attempts s' = login_attempts s
           \<and> (\<forall>la. emergency_profile_reset L (s\<lparr>login_attempts := la\<rparr>)
                     = Inr ((), s'\<lparr>login_attempts := la\<rparr>))"
proof -
  from assms(2) have key: "strip line \<in> fst ` set (users s)"
    by (metis map_of_eq_None_iff option.distinct(1))
  from assms show ?thesis
    by (simp add: emergency_profile_reset_def bind_def input_def print_def now_def
          set_password_def save_users_def Let_def update_conv' update_keys key)
qed

theorem emergency_reset_frame_witness:
  "\<exists>s'. emergency_profile_reset test_lib
            (busy_state\<lparr>stdin := [''alice'', ''dceb52'', ''new'', ''new'']\<rparr>) = Inr ((), s')
       \<and> map_of (users s') ''alice'' = Some (alice\<lparr>password := hash_password test_lib ''new''\<rparr>)
       \<and> map_of (users s') ''bob'' = Some bob
       \<and> protected_data s' = protected_data busy_state
       \<and> login_attempts s' = login_attempts busy_state"
proof -
  let ?s = "busy_state\<lparr>stdin := [''alice'', ''dceb52'', ''new'', ''new'']\<rparr>"
  have name: "strip ''alice'' = ''alice''"
    by (simp add: strip_def isspace_def)
  have input: "stdin ?s = ''alice'' # ''dceb52'' # ''new'' # ''new'' # []"
    by simp
  have known: "map_of (users ?s) (strip ''alice'') = Some alice"
    by (simp add: name busy_state_def empty_state_def)
  have time: "clock ?s (ticks ?s) = 0"
    by (simp add: busy_state_def empty_state_def)
  have code: "upper (strip ''dceb52'') = reset_code test_lib (strip ''alice'') (clock ?s (ticks ?s))"
    unfolding time by code_simp
  from emergency_reset_frame [OF input known code]
  obtain s' where run: "emergency_profile_reset test_lib ?s = Inr ((), s')"
    and own: "map_of (users s') (strip ''alice'') = Some (alice\<lparr>password := hash_password test_lib ''new''\<rparr>)"
    and others: "\<forall>k. k \<noteq> strip ''alice'' \<longrightarrow> map_of (users s') k = map_of (users ?s) k"
    and data: "protected_data s' = protected_data ?s"
    and lock: "login_attempts s' = login_attempts ?s"
    by blast
  have "''bob'' \<noteq> strip ''alice''"
    by (simp add: name)
  with others have "map_of (users s') ''bob'' = map_of (users ?s) ''bob''"
    by blast
  then have "map_of (users s') ''bob'' = Some bob"
    by (simp add: busy_state_def empty_state_def)
  with run own data lock show ?thesis
    by (simp add: name)
qed

subsection \<open>Roles\<close>

lemma roles_valid_Nil: "roles_valid []"
  by (simp add: roles_valid_def)

lemma roles_valid_Cons: "roles_valid ((k, u) # us) = (valid_role (role u) \<and> roles_valid us)"
  by (simp add: roles_valid_def)

lemma roles_valid_update:
  "roles_valid us \<Longrightarrow> valid_role (role u) \<Longrightarrow> roles_valid (AList.update k u us)"
  by (induction us) (auto simp: roles_valid_Nil roles_valid_Cons)

lemma roles_valid_lookup:
  "roles_valid us \<Longrightarrow> map_of us k = Some u \<Longrightarrow> valid_role (role u)"
  by (auto simp: roles_valid_def list_all_iff dest: map_of_SomeD)

lemma roles_valid_set_password:
  assumes "roles_valid (users s)" and "map_of (users s) k = Some u"
  shows "roles_valid (users (set_password L k u pw s))"
  using assms roles_valid_lookup [OF assms]
  by (simp add: set_password_def roles_valid_update)

lemma ask_role_valid: "ask_role first_user s = Inr (r, s') \<Longrightarrow> valid_role r \<and> users s' = users s"
  by (auto simp: ask_role_def bind_def input_def print_def valid_role_def Let_def
           split: if_splits list.splits)

lemma register_user_roles_valid:
  assumes "roles_valid (users s)" and "register_user L admin_username s = Inr (b, s')"
  shows "roles_valid (users s')"
  using assms
  by (auto simp: register_user_def bind_def input_def print_def Let_def
                 save_users_def save_protected_data_def roles_valid_update
                 roles_valid_Nil roles_valid_Cons
           split: if_splits list.splits sum.splits dest!: ask_role_valid)

lemma is_frozen_users: "is_frozen username s = (b, s') \<Longrightarrow> users s' = users s"
  by (auto simp: is_frozen_def reset_attempts_def now_def print_def Let_def
           split: option.splits if_splits prod.splits)

lemma input_users: "input prompt s = Inr (l, s') \<Longrightarrow> users s' = users s"
  by (auto simp: input_def split: list.splits)

lemma login_loop_users:
  "login_loop L username s = Inr (r, s') \<Longrightarrow> users s' = users s"
proof (induction L username s rule: login_loop.induct)
  case (1 L username s)
  obtain b s1 where frozen: "is_frozen username s = (b, s1)"
    by (cases "is_frozen username s")
  then have u1: "users s1 = users s"
    by (rule is_frozen_users)
  show ?case
  proof (cases b)
    case True
    with frozen "1.prems" u1 show ?thesis
      by (simp add: login_loop.simps [of L username s])
  next
    case False
    with frozen "1.prems" obtain pw s2 where inp: "input ''Password: '' s1 = Inr (pw, s2)"
      by (auto simp: login_loop.simps [of L username s] split: sum.splits)
    then have u2: "users s2 = users s1"
      by (rule input_users)
    from frozen False inp "1.prems" obtain u a
      where user: "map_of (users s2) username = Some u"
        and att: "map_of (login_attempts s2) username = Some a"
      by (auto simp: login_loop.simps [of L username s] Let_def split: option.splits)
    show ?thesis
    proof (cases "hash_password L pw = password u")
      case True
      with frozen False inp user att "1.prems" u1 u2 show ?thesis
        by (auto simp: login_loop.simps [of L username s] Let_def set_count_def print_def
                       input_def
                 split: list.splits)
    next
      case wrong: False
      show ?thesis
      proof (cases "int max_attempts - int (count a + 1) \<le> 0")
        case True
        with frozen False inp user att wrong "1.prems" u1 u2 show ?thesis
          by (auto simp: login_loop.simps [of L username s] Let_def set_count_def print_def
                         now_def set_freeze_time_def
                   split: sum.splits)
      next
        case more: False
        let ?s5 = "print ''Try again or press Ctrl+C to cancel login.''
                     (print (''Invalid password. ''
                               @ str_int (int max_attempts - int (count a + 1))
                               @ '' attempts remaining.'')
                        (set_count username a (count a + 1) s2))"
        from frozen False inp user att wrong more "1.prems"
        have again: "login_loop L username ?s5 = Inr (r, s')"
          by (simp add: login_loop.simps [of L username s] Let_def)
        have "users s' = users ?s5"
          using "1.IH" [OF frozen [symmetric] _ inp refl refl user att wrong
                  refl refl refl _ refl refl] False more again
          by simp
        with u1 u2 show ?thesis
          by (simp add: set_count_def print_def)
      qed
    qed
  qed
qed

lemma login_users: "login L s = Inr (r, s') \<Longrightarrow> users s' = users s"
  by (auto simp: login_def Let_def input_def print_def
           split: list.splits if_splits dest!: login_loop_users)

lemma bss_login_users: "bss_login L s = Inr (r, s') \<Longrightarrow> users s' = users s"
  by (auto simp: bss_login_def Let_def input_def print_def set_count_def set_freeze_time_def
                 now_def
           split: list.splits if_splits prod.splits option.splits bool.splits sum.splits
           dest!: is_frozen_users)

lemma users_foldl_print:
  "users (foldl (\<lambda>st (username, u). st\<lparr>stdout := stdout st @ [f username u]\<rparr>) s xs) = users s"
  by (induction xs arbitrary: s) auto

lemma stdin_foldl_print:
  "stdin (foldl (\<lambda>st (username, u). st\<lparr>stdout := stdout st @ [f username u]\<rparr>) s xs) = stdin s"
  by (induction xs arbitrary: s) auto

lemma roles_valid_update_password:
  "roles_valid us \<Longrightarrow> map_of us k = Some u \<Longrightarrow> roles_valid (AList.update k (u\<lparr>password := p\<rparr>) us)"
  using roles_valid_lookup [of us k u] by (simp add: roles_valid_update)

lemma admin_reset_password_roles_valid:
  assumes "roles_valid (users s)" and "admin_reset_password L s = Inr (x, s')"
  shows "roles_valid (users s')"
  using assms
  by (auto simp: admin_reset_password_def bind_def input_def print_def Let_def
                 save_users_def set_password_def users_foldl_print stdin_foldl_print
                 roles_valid_update_password
           split: list.splits option.splits if_splits)

lemma emergency_profile_reset_roles_valid:
  assumes "roles_valid (users s)" and "emergency_profile_reset L s = Inr (x, s')"
  shows "roles_valid (users s')"
  using assms
  by (auto simp: emergency_profile_reset_def bind_def input_def print_def Let_def now_def
                 save_users_def set_password_def roles_valid_update_password
           split: list.splits option.splits if_splits)

lemma change_password_roles_valid:
  assumes "roles_valid (users s)" and "change_password L username s = Inr (b, s')"
  shows "roles_valid (users s')"
  using assms
  by (auto simp: change_password_def bind_def input_def print_def Let_def
                 save_users_def set_password_def roles_valid_update_password
           split: list.splits option.splits if_splits)

lemma register_user_stored_role:
  assumes "register_user L admin_username s = Inr (True, s')"
  shows "3 \<le> length (stdin s) \<and> (users s \<noteq> [] \<longrightarrow> 4 \<le> length (stdin s))
         \<and> map_of (users s') (strip (stdin s ! 0))
             = Some \<lparr>password = hash_password L (stdin s ! 1),
                     role = (if users s = [] then ''admin''
                             else if lower (strip (stdin s ! 3)) \<in> set [''admin'', ''user'']
                                  then lower (strip (stdin s ! 3))
                                  else ''user'')\<rparr>"
  using assms
  by (auto simp: register_user_def ask_role_def bind_def input_def print_def Let_def
                 save_users_def save_protected_data_def update_conv'
           split: list.splits option.splits if_splits)

text \<open>
  Claim C9. A successful registration has read the name, the password and its
  confirmation (and the role, unless the store was empty) and stores a record whose role
  is \<open>admin\<close> or \<open>user\<close>: \<open>admin\<close> for the first user, and otherwise the trimmed, lower-cased answer
  if that is \<open>admin\<close> or \<open>user\<close> and \<open>user\<close> if it is anything else. If every
  stored role is valid before, every stored role is valid after a registration (whatever
  its outcome), a login (either version), an administrator's password reset, an emergency
  reset and a password change.
\<close>

theorem stored_roles_valid:
  "(register_user L admin_username s = Inr (True, s') \<longrightarrow>
      (3 \<le> length (stdin s) \<and> (users s \<noteq> [] \<longrightarrow> 4 \<le> length (stdin s))
       \<and> map_of (users s') (strip (stdin s ! 0))
           = Some \<lparr>password = hash_password L (stdin s ! 1),
                   role = (if users s = [] then ''admin''
                           else if lower (strip (stdin s ! 3)) \<in> set [''admin'', ''user'']
                                then lower (strip (stdin s ! 3))
                                else ''user'')\<rparr>)
      \<and> valid_role (if users s = [] then ''admin''
                           else if lower (strip (stdin s ! 3)) \<in> set [''admin'', ''user'']
                                then lower (strip (stdin s ! 3))
                                else ''user''))
   \<and> (roles_valid (users s) \<longrightarrow>
        (\<forall>b s1. register_user L admin_username s = Inr (b, s1) \<longrightarrow> roles_valid (users s1))
      \<and> (\<forall>r s1. login L s = Inr (r, s1) \<longrightarrow> roles_valid (users s1))
      \<and> (\<forall>r s1. bss_login L s = Inr (r, s1) \<longrightarrow> roles_valid (users s1))
      \<and> (\<forall>x s1. admin_reset_password L s = Inr (x, s1) \<longrightarrow> roles_valid (users s1))
      \<and> (\<forall>x s1. emergency_profile_reset L s = Inr (x, s1) \<longrightarrow> roles_valid (users s1))
      \<and> (\<forall>username b s1. change_password L username s = Inr (b, s1)
             \<longrightarrow> roles_valid (users s1)))"
proof -
  let ?r = "if users s = [] then ''admin''
            else if lower (strip (stdin s ! 3)) \<in> set [''admin'', ''user'']
                 then lower (strip (stdin s ! 3))
                 else ''user''"
  have valid: "valid_role ?r"
    by (simp add: valid_role_def)
  have stored: "register_user L admin_username s = Inr (True, s') \<longrightarrow>
      (3 \<le> length (stdin s) \<and> (users s \<noteq> [] \<longrightarrow> 4 \<le> length (stdin s))
       \<and> map_of (users s') (strip (stdin s ! 0))
           = Some \<lparr>password = hash_password L (stdin s ! 1), role = ?r\<rparr>)
      \<and> valid_role ?r"
  proof
    assume "register_user L admin_username s = Inr (True, s')"
    from register_user_stored_role [OF this] valid
    show "(3 \<le> length (stdin s) \<and> (users s \<noteq> [] \<longrightarrow> 4 \<le> length (stdin s))
       \<and> map_of (users s') (strip (stdin s ! 0))
           = Some \<lparr>password = hash_password L (stdin s ! 1), role = ?r\<rparr>)
      \<and> valid_role ?r"
      by (rule conjI)
  qed
  have kept: "roles_valid (users s) \<longrightarrow>
        (\<forall>b s1. register_user L admin_username s = Inr (b, s1) \<longrightarrow> roles_valid (users s1))
      \<and> (\<forall>r s1. login L s = Inr (r, s1) \<longrightarrow> roles_valid (users s1))
      \<and> (\<forall>r s1. bss_login L s = Inr (r, s1) \<longrightarrow> roles_valid (users s1))
      \<and> (\<forall>x s1. admin_reset_password L s = Inr (x, s1) \<longrightarrow> roles_valid (users s1))
      \<and> (\<forall>x s1. emergency_profile_reset L s = Inr (x, s1) \<longrightarrow> roles_valid (users s1))
      \<and> (\<forall>username b s1. change_password L username s = Inr (b, s1)
             \<longrightarrow> roles_valid (users s1))"
  proof (intro impI conjI allI)
    fix b s1
    assume "roles_valid (users s)" and "register_user L admin_username s = Inr (b, s1)"
    then show "roles_valid (users s1)"
      by (rule register_user_roles_valid)
  next
    fix r s1
    assume ok: "roles_valid (users s)" and "login L s = Inr (r, s1)"
    from this(2) have "users s1 = users s"
      by (rule login_users)
    with ok show "roles_valid (users s1)"
      by simp
  next
    fix r s1
    assume ok: "roles_valid (users s)" and "bss_login L s = Inr (r, s1)"
    from this(2) have "users s1 = users s"
      by (rule bss_login_users)
    with ok show "roles_valid (users s1)"
      by simp
  next
    fix x s1
    assume "roles_valid (users s)" and "admin_reset_password L s = Inr (x, s1)"
    then show "roles_valid (users s1)"
      by (rule admin_reset_password_roles_valid)
  next
    fix x s1
    assume "roles_valid (users s)" and "emergency_profile_reset L s = Inr (x, s1)"
    then show "roles_valid (users s1)"
      by (rule emergency_profile_reset_roles_valid)
  next
    fix username b s1
    assume "roles_valid (users s)" and "change_password L username s = Inr (b, s1)"
    then show "roles_valid (users s1)"
      by (rule change_password_roles_valid)
  qed
  from stored kept show ?thesis
    by (rule conjI)
qed

theorem stored_roles_valid_witness:
  "\<exists>s'. register_user test_lib (Some ''alice'')
            (alice_state\<lparr>stdin := [''carol'', ''pw'', ''pw'', '' Root '']\<rparr>) = Inr (True, s')
       \<and> map_of (users s') ''carol''
           = Some \<lparr>password = hash_password test_lib ''pw'', role = ''user''\<rparr>
       \<and> roles_valid (users s')"
proof -
  let ?s = "alice_state\<lparr>stdin := [''carol'', ''pw'', ''pw'', '' Root '']\<rparr>"
  have name: "strip ''carol'' = ''carol''"
    by (simp add: strip_def isspace_def)
  have "\<exists>s'. register_user test_lib (Some ''alice'') ?s = Inr (True, s')"
    by (simp add: register_user_def ask_role_def bind_def input_def print_def Let_def
          alice_state_def empty_state_def alice_def name)
  then obtain s' where run: "register_user test_lib (Some ''alice'') ?s = Inr (True, s')"
    by (rule exE)
  have before: "roles_valid (users ?s)"
    by (simp add: roles_valid_def valid_role_def alice_state_def empty_state_def alice_def)
  have answer: "lower (strip '' Root '') = ''root''"
    by (simp add: strip_def isspace_def lower_def lower_char_def)
  have nonempty: "users alice_state \<noteq> []"
    by (simp add: alice_state_def empty_state_def)
  note inst = stored_roles_valid [of test_lib "Some ''alice''" ?s s']
  from inst have "roles_valid (users ?s) \<longrightarrow>
        (\<forall>b s1. register_user test_lib (Some ''alice'') ?s = Inr (b, s1)
            \<longrightarrow> roles_valid (users s1))
      \<and> (\<forall>r s1. login test_lib ?s = Inr (r, s1) \<longrightarrow> roles_valid (users s1))
      \<and> (\<forall>r s1. bss_login test_lib ?s = Inr (r, s1) \<longrightarrow> roles_valid (users s1))
      \<and> (\<forall>x s1. admin_reset_password test_lib ?s = Inr (x, s1) \<longrightarrow> roles_valid (users s1))
      \<and> (\<forall>x s1. emergency_profile_reset test_lib ?s = Inr (x, s1)
            \<longrightarrow> roles_valid (users s1))
      \<and> (\<forall>username b s1. change_password test_lib username ?s = Inr (b, s1)
             \<longrightarrow> roles_valid (users s1))"
    by (rule conjunct2)
  from this [THEN mp, OF before, THEN conjunct1, rule_format, OF run]
  have after: "roles_valid (users s')" .
  from inst [THEN conjunct1, THEN mp, OF run, THEN conjunct1, THEN conjunct2, THEN conjunct2]
  have "map_of (users s') ''carol''
        = Some \<lparr>password = hash_password test_lib ''pw'', role = ''user''\<rparr>"
    by (simp add: name answer nonempty)
  with run after show ?thesis
    by (intro exI conjI)
qed

subsection \<open>Lockout\<close>

lemma is_frozen_counting:
  "map_of (login_attempts s) username = Some a \<Longrightarrow> count a < max_attempts
   \<Longrightarrow> is_frozen username s = (False, s)"
  by (simp add: is_frozen_def)

lemma is_frozen_during:
  assumes "map_of (login_attempts s) username = Some a" and "max_attempts \<le> count a"
    and "freeze_time a = Some ft" and "clock s (ticks s) < ft"
  shows "is_frozen username s
         = (True, s\<lparr>ticks := Suc (Suc (ticks s)),
                    stdout := stdout s @ [CHR 0x0A # ''Account is frozen. Try again in ''
                       @ str_int (td_seconds (ft - clock s (Suc (ticks s)))) @ '' seconds.'']\<rparr>)"
  using assms by (simp add: is_frozen_def now_def print_def)

lemma is_frozen_expired:
  assumes "map_of (login_attempts s) username = Some a" and "max_attempts \<le> count a"
    and "freeze_time a = Some ft" and "ft \<le> clock s (ticks s)"
  shows "is_frozen username s
         = (False, s\<lparr>ticks := Suc (ticks s),
                     login_attempts := AList.update username
                        (a\<lparr>count := 0, freeze_time := None\<rparr>) (login_attempts s)\<rparr>)"
  using assms by (simp add: is_frozen_def now_def reset_attempts_def)

lemma login_loop_frozen:
  "is_frozen username s = (True, s1) \<Longrightarrow> login_loop L username s = Inr (None, s1)"
  by (simp add: login_loop.simps [of L username s])

lemma login_loop_wrong_more:
  assumes "is_frozen username s = (False, s1)" and "stdin s1 = pw # rest"
    and "map_of (users s1) username = Some u"
    and "map_of (login_attempts s1) username = Some a"
    and "hash_password L pw \<noteq> password u" and "count a + 1 < max_attempts"
  shows "login_loop L username s
         = login_loop L username
             (s1\<lparr>stdin := rest,
                 login_attempts := AList.update username (a\<lparr>count := count a + 1\<rparr>)
                                     (login_attempts s1),
                 stdout := stdout s1 @ [''Password: '',
                    ''Invalid password. '' @ str_int (int max_attempts - int (count a + 1))
                      @ '' attempts remaining.'',
                    ''Try again or press Ctrl+C to cancel login.'']\<rparr>)"
  using assms
  by (simp add: login_loop.simps [of L username s] input_def Let_def set_count_def print_def)

lemma login_loop_wrong_last:
  assumes "is_frozen username s = (False, s1)" and "stdin s1 = pw # rest"
    and "map_of (users s1) username = Some u"
    and "map_of (login_attempts s1) username = Some a"
    and "hash_password L pw \<noteq> password u" and "max_attempts \<le> count a + 1"
    and "add_timedelta (clock s1 (ticks s1)) (timedelta_seconds freeze_duration) = Inr ft"
  shows "login_loop L username s
         = Inr (None,
             s1\<lparr>stdin := rest,
                 login_attempts := AList.update username
                    (a\<lparr>count := count a + 1, freeze_time := Some ft\<rparr>)
                    (login_attempts s1),
                 ticks := Suc (ticks s1),
                 stdout := stdout s1 @ [''Password: '',
                    CHR 0x0A # ''Too many failed attempts! Account frozen.'']\<rparr>)"
  using assms
  by (simp add: login_loop.simps [of L username s] input_def Let_def set_count_def print_def
        set_freeze_time_def now_def)

lemma login_loop_wrong_last_overflow:
  assumes "is_frozen username s = (False, s1)" and "stdin s1 = pw # rest"
    and "map_of (users s1) username = Some u"
    and "map_of (login_attempts s1) username = Some a"
    and "hash_password L pw \<noteq> password u" and "max_attempts \<le> count a + 1"
    and "add_timedelta (clock s1 (ticks s1)) (timedelta_seconds freeze_duration) = Inl e"
  shows "login_loop L username s = Inl e"
  using assms
  by (simp add: login_loop.simps [of L username s] input_def Let_def set_count_def print_def
        set_freeze_time_def now_def)

lemma add_timedelta_freeze:
  "0 \<le> t \<Longrightarrow> t + 30000000 \<le> datetime_max
   \<Longrightarrow> add_timedelta t (timedelta_seconds freeze_duration) = Inr (t + 30000000)"
  by (simp add: add_timedelta_def timedelta_seconds_def freeze_duration_def)

lemma login_loop_right:
  assumes "is_frozen username s = (False, s1)" and "stdin s1 = pw # enter # rest"
    and "map_of (users s1) username = Some u"
    and "map_of (login_attempts s1) username = Some a"
    and "hash_password L pw = password u"
  shows "login_loop L username s
         = Inr (Some username,
             s1\<lparr>stdin := rest,
                 login_attempts := AList.update username (a\<lparr>count := 0\<rparr>) (login_attempts s1),
                 stdout := stdout s1 @ [''Password: '',
                    CHR 0x0A # ''Welcome, '' @ username @ ''!'',
                    ''Press Enter to continue...'']\<rparr>)"
  using assms
  by (simp add: login_loop.simps [of L username s] input_def Let_def set_count_def print_def)

lemma login_loop_wrong_run:
  assumes "map_of (users s) username = Some u"
    and "map_of (login_attempts s) username = Some a"
    and "count a < max_attempts"
    and "stdin s = pws @ rest"
    and "length pws = max_attempts - count a"
    and "\<forall>p \<in> set pws. hash_password L p \<noteq> password u"
    and "add_timedelta (clock s (ticks s)) (timedelta_seconds freeze_duration) = Inr ft"
  shows "\<exists>s'. login_loop L username s = Inr (None, s')
           \<and> map_of (login_attempts s') username
               = Some (a\<lparr>count := max_attempts, freeze_time := Some ft\<rparr>)
           \<and> (\<forall>k. k \<noteq> username \<longrightarrow> map_of (login_attempts s') k = map_of (login_attempts s) k)
           \<and> stdin s' = rest \<and> users s' = users s
           \<and> clock s' = clock s \<and> ticks s' = Suc (ticks s)"
  using assms
proof (induction pws arbitrary: s a)
  case Nil
  then show ?case by simp
next
  case (Cons p ps)
  have frozen: "is_frozen username s = (False, s)"
    using Cons.prems(2,3) by (rule is_frozen_counting)
  have input: "stdin s = p # (ps @ rest)"
    using Cons.prems(4) by simp
  have wrong: "hash_password L p \<noteq> password u"
    using Cons.prems(6) by simp
  show ?case
  proof (cases "count a + 1 < max_attempts")
    case False
    with Cons.prems(3) have last: "max_attempts \<le> count a + 1" and full: "count a + 1 = max_attempts"
      by simp_all
    from Cons.prems(5) have "Suc (length ps) = max_attempts - count a"
      by simp
    also have "\<dots> = 1"
      using full by arith
    finally have "ps = []"
      by simp
    with login_loop_wrong_last [OF frozen input Cons.prems(1,2) wrong last Cons.prems(7)] full
    show ?thesis
      by (simp add: update_conv')
  next
    case True
    let ?a = "a\<lparr>count := count a + 1\<rparr>"
    let ?s = "s\<lparr>stdin := ps @ rest,
                login_attempts := AList.update username ?a (login_attempts s),
                stdout := stdout s @ [''Password: '',
                   ''Invalid password. '' @ str_int (int max_attempts - int (count a + 1))
                     @ '' attempts remaining.'',
                   ''Try again or press Ctrl+C to cancel login.'']\<rparr>"
    have step: "login_loop L username s = login_loop L username ?s"
      by (rule login_loop_wrong_more [OF frozen input Cons.prems(1,2) wrong True])
    have "\<exists>s'. login_loop L username ?s = Inr (None, s')
           \<and> map_of (login_attempts s') username
               = Some (?a\<lparr>count := max_attempts, freeze_time := Some ft\<rparr>)
           \<and> (\<forall>k. k \<noteq> username \<longrightarrow> map_of (login_attempts s') k = map_of (login_attempts ?s) k)
           \<and> stdin s' = rest \<and> users s' = users ?s
           \<and> clock s' = clock ?s \<and> ticks s' = Suc (ticks ?s)"
    proof (rule Cons.IH)
      show "map_of (users ?s) username = Some u"
        using Cons.prems(1) by simp
      show "map_of (login_attempts ?s) username = Some ?a"
        by (simp add: update_conv')
      show "count ?a < max_attempts"
        using True by simp
      show "stdin ?s = ps @ rest"
        by simp
      show "length ps = max_attempts - count ?a"
        using Cons.prems(5) by simp
      show "\<forall>p \<in> set ps. hash_password L p \<noteq> password u"
        using Cons.prems(6) by simp
      show "add_timedelta (clock ?s (ticks ?s)) (timedelta_seconds freeze_duration) = Inr ft"
        using Cons.prems(7) by simp
    qed
    then show ?thesis
      unfolding step by (auto simp: update_conv')
  qed
qed

lemma login_known:
  assumes "stdin s = line # rest" and "map_of (users s) (strip line) = Some u"
  shows "login L s
         = login_loop L (strip line)
             (s\<lparr>stdin := rest,
                stdout := stdout s @ [CHR 0x0A # ''==== SECURITY SYSTEM LOGIN ===='', ''Username: ''],
                login_attempts :=
                  (if map_of (login_attempts s) (strip line) = None
                   then AList.update (strip line) \<lparr>count = 0, freeze_time = None\<rparr>
                          (login_attempts s)
                   else login_attempts s)\<rparr>)"
  using assms by (simp add: login_def input_def print_def Let_def)

lemma login_while_frozen:
  assumes "stdin s = line # rest" and "map_of (users s) (strip line) = Some u"
    and "map_of (login_attempts s) (strip line) = Some a"
    and "max_attempts \<le> count a" and "freeze_time a = Some ft"
    and "clock s (ticks s) < ft"
  shows "\<exists>s'. login L s = Inr (None, s') \<and> stdin s' = rest
           \<and> login_attempts s' = login_attempts s \<and> users s' = users s
           \<and> stdout s' = stdout s @ [CHR 0x0A # ''==== SECURITY SYSTEM LOGIN ===='',
                  ''Username: '',
                  CHR 0x0A # ''Account is frozen. Try again in ''
                    @ str_int (td_seconds (ft - clock s (Suc (ticks s)))) @ '' seconds.'']"
proof -
  let ?s = "s\<lparr>stdin := rest,
              stdout := stdout s @ [CHR 0x0A # ''==== SECURITY SYSTEM LOGIN ===='', ''Username: ''],
              login_attempts := login_attempts s\<rparr>"
  from assms(3) have start: "login L s = login_loop L (strip line) ?s"
    by (simp add: login_known [OF assms(1,2)])
  have "is_frozen (strip line) ?s
        = (True, ?s\<lparr>ticks := Suc (Suc (ticks ?s)),
                     stdout := stdout ?s @ [CHR 0x0A # ''Account is frozen. Try again in ''
                        @ str_int (td_seconds (ft - clock ?s (Suc (ticks ?s)))) @ '' seconds.'']\<rparr>)"
    by (rule is_frozen_during) (use assms in simp_all)
  from login_loop_frozen [OF this] start show ?thesis
    by simp
qed

lemma login_after_expiry:
  assumes "stdin s = line # pw # enter # rest" and "map_of (users s) (strip line) = Some u"
    and "map_of (login_attempts s) (strip line) = Some a"
    and "max_attempts \<le> count a" and "freeze_time a = Some ft"
    and "ft \<le> clock s (ticks s)" and "hash_password L pw = password u"
  shows "\<exists>s'. login L s = Inr (Some (strip line), s') \<and> stdin s' = rest
           \<and> map_of (login_attempts s') (strip line) = Some (a\<lparr>count := 0, freeze_time := None\<rparr>)
           \<and> users s' = users s"
proof -
  let ?s = "s\<lparr>stdin := pw # enter # rest,
              stdout := stdout s @ [CHR 0x0A # ''==== SECURITY SYSTEM LOGIN ===='', ''Username: ''],
              login_attempts := login_attempts s\<rparr>"
  let ?a = "a\<lparr>count := 0, freeze_time := None\<rparr>"
  let ?s1 = "?s\<lparr>ticks := Suc (ticks ?s),
                 login_attempts := AList.update (strip line) ?a (login_attempts ?s)\<rparr>"
  from assms(3) have start: "login L s = login_loop L (strip line) ?s"
    by (simp add: login_known [OF assms(1,2)])
  have expired: "is_frozen (strip line) ?s = (False, ?s1)"
    by (rule is_frozen_expired) (use assms in simp_all)
  have "login_loop L (strip line) ?s
        = Inr (Some (strip line),
             ?s1\<lparr>stdin := rest,
                 login_attempts := AList.update (strip line) (?a\<lparr>count := 0\<rparr>) (login_attempts ?s1),
                 stdout := stdout ?s1 @ [''Password: '',
                    CHR 0x0A # ''Welcome, '' @ strip line @ ''!'',
                    ''Press Enter to continue...'']\<rparr>)"
    by (rule login_loop_right [OF expired, where pw = pw and enter = enter and u = u])
       (use assms in \<open>simp_all add: update_conv'\<close>)
  with start show ?thesis
    by (simp add: update_conv')
qed

text \<open>
  Claim C1. For a registered username whose lockout entry is absent or has count 0, five
  wrong passwords in a row end the login with the entry at count 5 and frozen until
  30 seconds after the clock reading taken at the fifth failure (that reading being a
  \<open>datetime\<close> at least 30 seconds before \<open>datetime.max\<close>). From then on, in any state
  with these users and this lockout dictionary, a login for that username whose clock
  reading is before the freeze time is rejected with the frozen message, with the
  lockout dictionary unchanged and without reading a password: the lines after the
  username, a correct password included, are left on the input.
\<close>

theorem five_failures_freeze:
  assumes "map_of (users s) (strip line) = Some u"
    and "map_of (login_attempts s) (strip line) = None
         \<or> (\<exists>f. map_of (login_attempts s) (strip line) = Some \<lparr>count = 0, freeze_time = f\<rparr>)"
    and "stdin s = line # p1 # p2 # p3 # p4 # p5 # rest"
    and "\<forall>p \<in> set [p1, p2, p3, p4, p5]. hash_password L p \<noteq> password u"
    and "0 \<le> clock s (ticks s)" and "clock s (ticks s) + 30000000 \<le> datetime_max"
  shows "\<exists>s'. login L s = Inr (None, s')
           \<and> map_of (login_attempts s') (strip line)
               = Some \<lparr>count = 5, freeze_time = Some (clock s (ticks s) + 30000000)\<rparr>
           \<and> stdin s' = rest \<and> users s' = users s
           \<and> (\<forall>s2 line2 rest2.
                  users s2 = users s' \<and> login_attempts s2 = login_attempts s'
                  \<and> stdin s2 = line2 # rest2 \<and> strip line2 = strip line
                  \<and> clock s2 (ticks s2) < clock s (ticks s) + 30000000
                  \<longrightarrow> (\<exists>s3 n. login L s2 = Inr (None, s3) \<and> stdin s3 = rest2
                            \<and> login_attempts s3 = login_attempts s2
                            \<and> last (stdout s3) = CHR 0x0A # ''Account is frozen. Try again in ''
                                                     @ str_int n @ '' seconds.''))"
proof -
  let ?s0 = "s\<lparr>stdin := p1 # p2 # p3 # p4 # p5 # rest,
               stdout := stdout s @ [CHR 0x0A # ''==== SECURITY SYSTEM LOGIN ===='', ''Username: ''],
               login_attempts :=
                 (if map_of (login_attempts s) (strip line) = None
                  then AList.update (strip line) \<lparr>count = 0, freeze_time = None\<rparr>
                         (login_attempts s)
                  else login_attempts s)\<rparr>"
  let ?ft = "clock s (ticks s) + 30000000"
  have start: "login L s = login_loop L (strip line) ?s0"
    by (rule login_known [OF assms(3,1)])
  from assms(2) obtain a where entry: "map_of (login_attempts ?s0) (strip line) = Some a"
    and zero: "count a = 0"
    by (auto simp: update_conv')
  have "\<exists>s'. login_loop L (strip line) ?s0 = Inr (None, s')
           \<and> map_of (login_attempts s') (strip line)
               = Some (a\<lparr>count := max_attempts, freeze_time := Some ?ft\<rparr>)
           \<and> (\<forall>k. k \<noteq> strip line \<longrightarrow> map_of (login_attempts s') k = map_of (login_attempts ?s0) k)
           \<and> stdin s' = rest \<and> users s' = users ?s0
           \<and> clock s' = clock ?s0 \<and> ticks s' = Suc (ticks ?s0)"
  proof (rule login_loop_wrong_run [where u = u and pws = "[p1, p2, p3, p4, p5]"])
    show "map_of (users ?s0) (strip line) = Some u"
      using assms(1) by simp
    show "map_of (login_attempts ?s0) (strip line) = Some a"
      by (rule entry)
    show "count a < max_attempts"
      using zero by (simp add: max_attempts_def)
    show "stdin ?s0 = [p1, p2, p3, p4, p5] @ rest"
      by simp
    show "length [p1, p2, p3, p4, p5] = max_attempts - count a"
      using zero by (simp add: max_attempts_def)
    show "\<forall>p \<in> set [p1, p2, p3, p4, p5]. hash_password L p \<noteq> password u"
      by (rule assms(4))
    show "add_timedelta (clock ?s0 (ticks ?s0)) (timedelta_seconds freeze_duration) = Inr ?ft"
      using add_timedelta_freeze [OF assms(5,6)] by simp
  qed
  then obtain s' where run: "login_loop L (strip line) ?s0 = Inr (None, s')"
    and frozen: "map_of (login_attempts s') (strip line)
               = Some (a\<lparr>count := max_attempts, freeze_time := Some ?ft\<rparr>)"
    and input: "stdin s' = rest" and same: "users s' = users ?s0"
    by blast
  have final_entry: "a\<lparr>count := max_attempts, freeze_time := Some ?ft\<rparr>
                = \<lparr>count = 5, freeze_time = Some ?ft\<rparr>"
    by (simp add: max_attempts_def)
  have entry': "map_of (login_attempts s') (strip line) = Some \<lparr>count = 5, freeze_time = Some ?ft\<rparr>"
    using frozen unfolding final_entry .
  have later: "\<exists>s3 n. login L s2 = Inr (None, s3) \<and> stdin s3 = rest2
                    \<and> login_attempts s3 = login_attempts s2
                    \<and> last (stdout s3) = CHR 0x0A # ''Account is frozen. Try again in ''
                                             @ str_int n @ '' seconds.''"
    if "users s2 = users s'" and "login_attempts s2 = login_attempts s'"
      and "stdin s2 = line2 # rest2" and "strip line2 = strip line"
      and "clock s2 (ticks s2) < ?ft"
    for s2 line2 rest2
  proof -
    have "\<exists>s3. login L s2 = Inr (None, s3) \<and> stdin s3 = rest2
              \<and> login_attempts s3 = login_attempts s2 \<and> users s3 = users s2
              \<and> stdout s3 = stdout s2 @ [CHR 0x0A # ''==== SECURITY SYSTEM LOGIN ===='',
                  ''Username: '',
                  CHR 0x0A # ''Account is frozen. Try again in ''
                    @ str_int (td_seconds (?ft - clock s2 (Suc (ticks s2)))) @ '' seconds.'']"
    proof (rule login_while_frozen [where a = "\<lparr>count = 5, freeze_time = Some ?ft\<rparr>"
                                     and u = u and ft = ?ft])
      show "stdin s2 = line2 # rest2"
        by (rule that(3))
      show "map_of (users s2) (strip line2) = Some u"
        using that(1,4) same assms(1) by simp
      show "map_of (login_attempts s2) (strip line2) = Some \<lparr>count = 5, freeze_time = Some ?ft\<rparr>"
        using that(2,4) entry' by simp
      show "max_attempts \<le> count \<lparr>count = 5, freeze_time = Some ?ft\<rparr>"
        by (simp add: max_attempts_def)
      show "freeze_time \<lparr>count = 5, freeze_time = Some ?ft\<rparr> = Some ?ft"
        by simp
      show "clock s2 (ticks s2) < ?ft"
        by (rule that(5))
    qed
    then obtain s3 where "login L s2 = Inr (None, s3)" and "stdin s3 = rest2"
      and "login_attempts s3 = login_attempts s2"
      and "last (stdout s3) = CHR 0x0A # ''Account is frozen. Try again in ''
            @ str_int (td_seconds (?ft - clock s2 (Suc (ticks s2)))) @ '' seconds.''"
      by auto
    then show ?thesis
      by (intro exI conjI)
  qed
  from start run entry' input same later show ?thesis
    by auto
qed

theorem five_failures_freeze_witness:
  "\<exists>s' s3 n. login test_lib (alice_state\<lparr>stdin := [''alice'', ''a'', ''b'', ''c'', ''d'', ''e'']\<rparr>)
              = Inr (None, s')
          \<and> map_of (login_attempts s') (strip ''alice'')
              = Some \<lparr>count = 5,
                      freeze_time = Some (clock alice_state (ticks alice_state) + 30000000)\<rparr>
          \<and> login test_lib (s'\<lparr>stdin := [''alice'', ''secret'', ''''],
                                  clock := (\<lambda>n. 1000000), ticks := 0\<rparr>) = Inr (None, s3)
          \<and> stdin s3 = [''secret'', '''']
          \<and> last (stdout s3) = CHR 0x0A # ''Account is frozen. Try again in ''
                                   @ str_int n @ '' seconds.''"
proof -
  let ?s = "alice_state\<lparr>stdin := [''alice'', ''a'', ''b'', ''c'', ''d'', ''e'']\<rparr>"
  have name: "strip ''alice'' = ''alice''"
    by (simp add: strip_def isspace_def)
  have known: "map_of (users ?s) (strip ''alice'') = Some alice"
    by (simp add: name alice_state_def empty_state_def)
  have fresh: "map_of (login_attempts ?s) (strip ''alice'') = None
         \<or> (\<exists>f. map_of (login_attempts ?s) (strip ''alice'') = Some \<lparr>count = 0, freeze_time = f\<rparr>)"
    by (simp add: alice_state_def empty_state_def)
  have lines: "stdin ?s = ''alice'' # ''a'' # ''b'' # ''c'' # ''d'' # ''e'' # []"
    by simp
  have wrong: "\<forall>p \<in> set [''a'', ''b'', ''c'', ''d'', ''e'']. hash_password test_lib p \<noteq> password alice"
    by code_simp
  have time: "clock ?s (ticks ?s) = clock alice_state (ticks alice_state)"
    by simp
  have zero: "clock alice_state (ticks alice_state) = 0"
    by (simp add: alice_state_def empty_state_def)
  have early: "0 \<le> clock ?s (ticks ?s)"
    unfolding time zero by simp
  have room: "clock ?s (ticks ?s) + 30000000 \<le> datetime_max"
    unfolding time zero by (simp add: datetime_max_def)
  from five_failures_freeze [OF known fresh lines wrong early room]
  obtain s' where run: "login test_lib ?s = Inr (None, s')"
    and entry: "map_of (login_attempts s') (strip ''alice'')
                = Some \<lparr>count = 5, freeze_time = Some (clock ?s (ticks ?s) + 30000000)\<rparr>"
    and later: "\<forall>s2 line2 rest2.
                  users s2 = users s' \<and> login_attempts s2 = login_attempts s'
                  \<and> stdin s2 = line2 # rest2 \<and> strip line2 = strip ''alice''
                  \<and> clock s2 (ticks s2) < clock ?s (ticks ?s) + 30000000
                  \<longrightarrow> (\<exists>s3 n. login test_lib s2 = Inr (None, s3) \<and> stdin s3 = rest2
                            \<and> login_attempts s3 = login_attempts s2
                            \<and> last (stdout s3) = CHR 0x0A # ''Account is frozen. Try again in ''
                                                     @ str_int n @ '' seconds.'')"
    by (elim exE conjE)
  let ?s2 = "s'\<lparr>stdin := [''alice'', ''secret'', ''''], clock := (\<lambda>n. 1000000), ticks := 0\<rparr>"
  have cond: "users ?s2 = users s' \<and> login_attempts ?s2 = login_attempts s'
        \<and> stdin ?s2 = ''alice'' # [''secret'', ''''] \<and> strip ''alice'' = strip ''alice''
        \<and> clock ?s2 (ticks ?s2) < clock ?s (ticks ?s) + 30000000"
    unfolding time zero by simp
  from later [rule_format, OF cond]
  obtain s3 n where again: "login test_lib ?s2 = Inr (None, s3)"
    and left: "stdin s3 = [''secret'', '''']"
    and message: "last (stdout s3) = CHR 0x0A # ''Account is frozen. Try again in ''
                                       @ str_int n @ '' seconds.''"
    by (elim exE conjE)
  from entry have entry': "map_of (login_attempts s') (strip ''alice'')
              = Some \<lparr>count = 5,
                      freeze_time = Some (clock alice_state (ticks alice_state) + 30000000)\<rparr>"
    unfolding time .
  from run entry' again left message show ?thesis
    by (intro exI conjI)
qed

lemma login_after_expiry_wrong:
  assumes "stdin s = line # pw # rest" and "map_of (users s) (strip line) = Some u"
    and "map_of (login_attempts s) (strip line) = Some a"
    and "max_attempts \<le> count a" and "freeze_time a = Some ft"
    and "ft \<le> clock s (ticks s)" and "hash_password L pw \<noteq> password u"
  shows "\<exists>s1. login L s = login_loop L (strip line) s1 \<and> stdin s1 = rest
           \<and> map_of (login_attempts s1) (strip line) = Some (a\<lparr>count := 1, freeze_time := None\<rparr>)"
proof -
  let ?s = "s\<lparr>stdin := pw # rest,
              stdout := stdout s @ [CHR 0x0A # ''==== SECURITY SYSTEM LOGIN ===='', ''Username: ''],
              login_attempts := login_attempts s\<rparr>"
  let ?a = "a\<lparr>count := 0, freeze_time := None\<rparr>"
  let ?s1 = "?s\<lparr>ticks := Suc (ticks ?s),
                 login_attempts := AList.update (strip line) ?a (login_attempts ?s)\<rparr>"
  let ?s2 = "?s1\<lparr>stdin := rest,
                 login_attempts := AList.update (strip line) (?a\<lparr>count := count ?a + 1\<rparr>)
                                     (login_attempts ?s1),
                 stdout := stdout ?s1 @ [''Password: '',
                    ''Invalid password. '' @ str_int (int max_attempts - int (count ?a + 1))
                      @ '' attempts remaining.'',
                    ''Try again or press Ctrl+C to cancel login.'']\<rparr>"
  from assms(3) have start: "login L s = login_loop L (strip line) ?s"
    by (simp add: login_known [OF assms(1,2)])
  have expired: "is_frozen (strip line) ?s = (False, ?s1)"
    by (rule is_frozen_expired) (use assms in simp_all)
  have "login_loop L (strip line) ?s = login_loop L (strip line) ?s2"
    by (rule login_loop_wrong_more [OF expired, where pw = pw and u = u])
       (use assms in \<open>simp_all add: update_conv' max_attempts_def\<close>)
  with start have "login L s = login_loop L (strip line) ?s2"
    by simp
  moreover have "stdin ?s2 = rest"
    by simp
  moreover have "map_of (login_attempts ?s2) (strip line) = Some (a\<lparr>count := 1, freeze_time := None\<rparr>)"
    by (simp add: update_conv')
  ultimately show ?thesis
    by blast
qed

text \<open>
  Claim C2. Take a registered username whose lockout entry is frozen (count at least
  \<open>max_attempts\<close>, freeze time set). When the clock reading is at or after the freeze
  time, \<open>is_frozen\<close> answers \<open>False\<close> and has reset the entry to count 0 with no
  freeze time, before any line is read; so a correct password then logs in and leaves
  count 0, and a wrong one is counted from the reset entry (the loop goes on at
  count 1). When the reading is before the freeze time, the login is rejected and the
  lockout dictionary, the freeze time with it, is unchanged.
\<close>

theorem freeze_expiry:
  assumes "map_of (users s) (strip line) = Some u"
    and "map_of (login_attempts s) (strip line) = Some a"
    and "max_attempts \<le> count a" and "freeze_time a = Some ft"
    and "stdin s = line # rest"
  shows "(ft \<le> clock s (ticks s) \<longrightarrow>
            (\<exists>s1. is_frozen (strip line) s = (False, s1) \<and> stdin s1 = stdin s
                  \<and> map_of (login_attempts s1) (strip line)
                      = Some \<lparr>count = 0, freeze_time = None\<rparr>)
          \<and> (\<forall>pw enter rest'. rest = pw # enter # rest' \<and> hash_password L pw = password u
                 \<longrightarrow> (\<exists>s'. login L s = Inr (Some (strip line), s') \<and> stdin s' = rest'
                           \<and> map_of (login_attempts s') (strip line)
                               = Some \<lparr>count = 0, freeze_time = None\<rparr>))
          \<and> (\<forall>pw rest'. rest = pw # rest' \<and> hash_password L pw \<noteq> password u
                 \<longrightarrow> (\<exists>s1. login L s = login_loop L (strip line) s1 \<and> stdin s1 = rest'
                           \<and> map_of (login_attempts s1) (strip line)
                               = Some \<lparr>count = 1, freeze_time = None\<rparr>)))
       \<and> (clock s (ticks s) < ft \<longrightarrow>
            (\<exists>s'. login L s = Inr (None, s') \<and> stdin s' = rest
                  \<and> login_attempts s' = login_attempts s))"
proof -
  have reset0: "a\<lparr>count := 0, freeze_time := None\<rparr> = \<lparr>count = 0, freeze_time = None\<rparr>"
    by simp
  have reset1: "a\<lparr>count := 1, freeze_time := None\<rparr> = \<lparr>count = 1, freeze_time = None\<rparr>"
    by simp
  have first: "\<exists>s1. is_frozen (strip line) s = (False, s1) \<and> stdin s1 = stdin s
                  \<and> map_of (login_attempts s1) (strip line)
                      = Some \<lparr>count = 0, freeze_time = None\<rparr>"
    if "ft \<le> clock s (ticks s)"
    using is_frozen_expired [OF assms(2,3,4) that] by (simp add: update_conv')
  have right: "\<exists>s'. login L s = Inr (Some (strip line), s') \<and> stdin s' = rest'
                    \<and> map_of (login_attempts s') (strip line)
                        = Some \<lparr>count = 0, freeze_time = None\<rparr>"
    if "ft \<le> clock s (ticks s)" and "rest = pw # enter # rest'"
      and "hash_password L pw = password u" for pw enter rest'
  proof -
    from assms(5) that(2) have "stdin s = line # pw # enter # rest'"
      by simp
    from login_after_expiry [OF this assms(1,2,3,4) that(1,3)] show ?thesis
      unfolding reset0 by blast
  qed
  have wrong: "\<exists>s1. login L s = login_loop L (strip line) s1 \<and> stdin s1 = rest'
                    \<and> map_of (login_attempts s1) (strip line)
                        = Some \<lparr>count = 1, freeze_time = None\<rparr>"
    if "ft \<le> clock s (ticks s)" and "rest = pw # rest'"
      and "hash_password L pw \<noteq> password u" for pw rest'
  proof -
    from assms(5) that(2) have "stdin s = line # pw # rest'"
      by simp
    from login_after_expiry_wrong [OF this assms(1,2,3,4) that(1,3)] show ?thesis
      unfolding reset1 .
  qed
  have during: "\<exists>s'. login L s = Inr (None, s') \<and> stdin s' = rest
                    \<and> login_attempts s' = login_attempts s"
    if "clock s (ticks s) < ft"
    using login_while_frozen [OF assms(5,1,2,3,4) that] by blast
  from first right wrong during show ?thesis
    by blast
qed

theorem freeze_expiry_witness:
  "(\<exists>s'. login test_lib (busy_state\<lparr>ticks := 30, stdin := [''alice'', ''secret'', ''ok'']\<rparr>)
           = Inr (Some (strip ''alice''), s')
         \<and> stdin s' = []
         \<and> map_of (login_attempts s') (strip ''alice'') = Some \<lparr>count = 0, freeze_time = None\<rparr>)
   \<and> (\<exists>s'. login test_lib (busy_state\<lparr>stdin := [''alice'', ''secret'', ''ok'']\<rparr>)
           = Inr (None, s')
         \<and> stdin s' = [''secret'', ''ok'']
         \<and> login_attempts s' = login_attempts (busy_state\<lparr>stdin := [''alice'', ''secret'', ''ok'']\<rparr>))"
proof -
  let ?late = "busy_state\<lparr>ticks := 30, stdin := [''alice'', ''secret'', ''ok'']\<rparr>"
  let ?early = "busy_state\<lparr>stdin := [''alice'', ''secret'', ''ok'']\<rparr>"
  let ?a = "\<lparr>count = 5, freeze_time = Some 30000000\<rparr>"
  have name: "strip ''alice'' = ''alice''"
    by (simp add: strip_def isspace_def)
  have known_late: "map_of (users ?late) (strip ''alice'') = Some alice"
    by (simp add: name busy_state_def empty_state_def)
  have known_early: "map_of (users ?early) (strip ''alice'') = Some alice"
    by (simp add: name busy_state_def empty_state_def)
  have entry_late: "map_of (login_attempts ?late) (strip ''alice'') = Some ?a"
    by (simp add: name busy_state_def empty_state_def)
  have entry_early: "map_of (login_attempts ?early) (strip ''alice'') = Some ?a"
    by (simp add: name busy_state_def empty_state_def)
  have full: "max_attempts \<le> count ?a"
    by (simp add: max_attempts_def)
  have until: "freeze_time ?a = Some 30000000"
    by simp
  have late: "30000000 \<le> clock ?late (ticks ?late)"
    by (simp add: busy_state_def empty_state_def)
  have early: "clock ?early (ticks ?early) < 30000000"
    by (simp add: busy_state_def empty_state_def)
  have lines_late: "stdin ?late = ''alice'' # [''secret'', ''ok'']"
    by simp
  have lines_early: "stdin ?early = ''alice'' # [''secret'', ''ok'']"
    by simp
  have right: "[''secret'', ''ok''] = ''secret'' # ''ok'' # []
               \<and> hash_password test_lib ''secret'' = password alice"
    by (simp add: alice_def)
  note after = freeze_expiry [OF known_late entry_late full until lines_late, of test_lib,
      THEN conjunct1, THEN mp, OF late, THEN conjunct2, THEN conjunct1, rule_format, OF right]
  note before = freeze_expiry [OF known_early entry_early full until lines_early, of test_lib,
      THEN conjunct2, THEN mp, OF early]
  have part1: "\<exists>s'. login test_lib ?late = Inr (Some (strip ''alice''), s')
         \<and> stdin s' = []
         \<and> map_of (login_attempts s') (strip ''alice'') = Some \<lparr>count = 0, freeze_time = None\<rparr>"
    by (rule after)
  have part2: "\<exists>s'. login test_lib ?early = Inr (None, s')
         \<and> stdin s' = [''secret'', ''ok'']
         \<and> login_attempts s' = login_attempts ?early"
    by (rule before)
  from part1 part2 show ?thesis
    by (rule conjI)
qed

subsection \<open>Rejections of a login\<close>

text \<open>
  Claim C4 (not met by the code). Both versions of \<open>login\<close> reject an unknown username
  at once with \<open>Invalid username or password\<close>, while a known username is asked for a
  password and a wrong one is answered with another message, which carries the number of
  attempts left (and, in \<open>security_system.py\<close>, names the password): the two
  rejections differ on the terminal. Here \<open>bob\<close> is unknown and \<open>alice\<close> is known.
\<close>

theorem unknown_username_is_distinguishable:
  "outcome (login test_lib (alice_state\<lparr>stdin := [''bob'']\<rparr>))
     = Inr (None, [CHR 0x0A # ''==== SECURITY SYSTEM LOGIN ===='', ''Username: '',
                   ''Invalid username or password''])
   \<and> outcome (login test_lib (alice_state\<lparr>stdin := [''alice'', ''a'', ''b'', ''c'', ''d'', ''e'']\<rparr>))
     = Inr (None, [CHR 0x0A # ''==== SECURITY SYSTEM LOGIN ===='', ''Username: '',
                   ''Password: '', ''Invalid password. 4 attempts remaining.'',
                   ''Try again or press Ctrl+C to cancel login.'',
                   ''Password: '', ''Invalid password. 3 attempts remaining.'',
                   ''Try again or press Ctrl+C to cancel login.'',
                   ''Password: '', ''Invalid password. 2 attempts remaining.'',
                   ''Try again or press Ctrl+C to cancel login.'',
                   ''Password: '', ''Invalid password. 1 attempts remaining.'',
                   ''Try again or press Ctrl+C to cancel login.'',
                   ''Password: '', CHR 0x0A # ''Too many failed attempts! Account frozen.''])
   \<and> outcome (bss_login test_lib (alice_state\<lparr>stdin := [''bob'']\<rparr>))
     = Inr (None, [CHR 0x0A # ''==== SECURITY SYSTEM LOGIN ===='', ''Username: '',
                   ''Invalid username or password''])
   \<and> outcome (bss_login test_lib (alice_state\<lparr>stdin := [''alice'', ''a'']\<rparr>))
     = Inr (None, [CHR 0x0A # ''==== SECURITY SYSTEM LOGIN ===='', ''Username: '',
                   ''Password: '', ''Invalid username or password. 4 attempts remaining.''])"
  by code_simp

theorem unknown_username_is_distinguishable_witness:
  "outcome (login test_lib (alice_state\<lparr>stdin := [''bob'']\<rparr>))
     \<noteq> outcome (login test_lib (alice_state\<lparr>stdin := [''alice'', ''a'', ''b'', ''c'', ''d'', ''e'']\<rparr>))
   \<and> outcome (bss_login test_lib (alice_state\<lparr>stdin := [''bob'']\<rparr>))
     \<noteq> outcome (bss_login test_lib (alice_state\<lparr>stdin := [''alice'', ''a'']\<rparr>))"
  using unknown_username_is_distinguishable by simp

subsection \<open>Credential store: loading\<close>

lemma load_users_json_error:
  assumes "user_data_file s = Some doc" and "json_load L doc = Inl JSONDecodeError"
  shows "load_users L s
         = Inr (JObject [], s\<lparr>stdout := stdout s
                                  @ [''Error reading user data file. Creating new file.'']\<rparr>)"
  using assms by (simp add: load_users_def print_def)

lemma load_users_missing:
  assumes "user_data_file s = None"
  shows "load_users L s
         = Inr (JObject [],
                s\<lparr>stdout := stdout s
                      @ [''User data file does not exist. Creating new empty file.''],
                  user_data_file := Some (dump_users L [])\<rparr>)"
  using assms by (simp add: load_users_def print_def save_users_def json_of_users_def)

text \<open>
  Claim C7 (not met by the code). \<open>load_users\<close> recovers from a missing file and from
  text that is not JSON (the two lemmas above), and from nothing else. Whenever \<open>open\<close>
  and \<open>json.load\<close> raise another exception on the content of the file (bytes that are
  not text, nesting that is too deep), that exception leaves \<open>load_users\<close>; and when
  the content is JSON, the value is returned as it is, a mapping or not.
\<close>

theorem load_users_uncaught:
  assumes "user_data_file s = Some doc"
  shows "(json_load L doc = Inl e \<and> e \<noteq> JSONDecodeError \<longrightarrow> load_users L s = Inl e)
       \<and> (json_load L doc = Inr v \<longrightarrow> load_users L s = Inr (v, s))"
  using assms by (cases e) (simp_all add: load_users_def)

theorem load_users_uncaught_witness:
  "load_users test_lib
     (empty_state\<lparr>user_data_file := Some (Bad_bytes [CHR 0xFF, CHR 0xFE, CHR 0x7B, CHR 0x7D])\<rparr>)
     = Inl UnicodeDecodeError
   \<and> outcome (load_users test_lib
       (empty_state\<lparr>user_data_file := Some (Json_document (JArray [JNumber ''1'', JNumber ''2'']))\<rparr>))
     = Inr (JArray [JNumber ''1'', JNumber ''2''], [])"
proof -
  let ?bytes = "Bad_bytes [CHR 0xFF, CHR 0xFE, CHR 0x7B, CHR 0x7D]"
  let ?list = "Json_document (JArray [JNumber ''1'', JNumber ''2''])"
  have raised: "json_load test_lib ?bytes = Inl UnicodeDecodeError
                \<and> UnicodeDecodeError \<noteq> JSONDecodeError"
    by (simp add: test_lib_def)
  have parsed: "json_load test_lib ?list = Inr (JArray [JNumber ''1'', JNumber ''2''])"
    by (simp add: test_lib_def)
  have file1: "user_data_file (empty_state\<lparr>user_data_file := Some ?bytes\<rparr>) = Some ?bytes"
    by simp
  have file2: "user_data_file (empty_state\<lparr>user_data_file := Some ?list\<rparr>) = Some ?list"
    by simp
  note first = load_users_uncaught [OF file1, THEN conjunct1, THEN mp, OF raised]
  note second = load_users_uncaught [OF file2, THEN conjunct2, THEN mp, OF parsed]
  have "outcome (load_users test_lib (empty_state\<lparr>user_data_file := Some ?list\<rparr>))
        = Inr (JArray [JNumber ''1'', JNumber ''2''], [])"
    unfolding second by (simp add: outcome_def empty_state_def)
  with first show ?thesis
    by (rule conjI)
qed

end
